theory Spec2Isabelle
  imports Complex_Main "HOL-Library.AList"
begin

section \<open>VibeDeploy: the reaction-to-deployment bridge\<close>

text \<open>
  A shallow embedding of the most complete snapshot of \<^verbatim>\<open>main.go\<close> (the one with the
  allowlist, the gear reaction and the command-output listener). Go strings are byte
  sequences and are modelled as \<^typ>\<open>string\<close>; a Go \<^verbatim>\<open>error\<close> is modelled by its
  message, \<^verbatim>\<open>(T, error)\<close> by \<^typ>\<open>string + 'a\<close> (\<^const>\<open>Inl\<close> the error) and a bare
  \<^verbatim>\<open>error\<close> result by \<^typ>\<open>string option\<close> (\<^const>\<open>None\<close> is \<^verbatim>\<open>nil\<close>).
\<close>

subsection \<open>Constants\<close>

definition RocketReaction :: string where
  "RocketReaction = ''rocket''"

definition GearReaction :: string where
  "GearReaction = ''gear''"

definition VibeDeployType :: string where
  "VibeDeployType = ''vibe-deploy''"

definition DeploymentCommand :: string where
  "DeploymentCommand = ''docker compose up -d''"

subsection \<open>Log levels\<close>

text \<open>\<^verbatim>\<open>type LogLevel int\<close> with the four \<^verbatim>\<open>iota\<close> constants.\<close>

type_synonym LogLevel = int

definition DEBUG :: LogLevel where "DEBUG = 0"
definition INFO :: LogLevel where "INFO = 1"
definition WARN :: LogLevel where "WARN = 2"
definition ERROR :: LogLevel where "ERROR = 3"

subsection \<open>Data model\<close>

record Config =
  RedisAddr :: string
  RedisPassword :: string
  SlackToken :: string
  BaseDir :: string
  RedisPubSub :: string
  RedisListName :: string
  RedisOutputChannel :: string
  RedisReactionList :: string
  LogLevel :: LogLevel
  AllowedReposConfig :: string

text \<open>
  \<^verbatim>\<open>ReactionEvent\<close> nests two anonymous structs and a slice of a third; each gets a
  record of its own here.
\<close>

record ReactionItem =
  Type :: string
  Channel :: string
  Ts :: string

record ReactionBody =
  Type :: string
  User :: string
  Reaction :: string
  Item :: ReactionItem

record Authorization =
  UserID :: string
  IsBot :: bool

record ReactionEvent =
  Event :: ReactionBody
  Authorizations :: "Authorization list"

record PRMetadata =
  PRNumber :: int
  Repository :: string
  PRUrl :: string
  Author :: string
  Branch :: string
  EventAction :: string

record AllowedReposConfig =
  AllowedRepos :: "string list"

record CommandMetadata =
  Channel :: string
  Ts :: string

text \<open>The pointer field \<^verbatim>\<open>Metadata *CommandMetadata\<close> is an option: \<^const>\<open>None\<close> is \<^verbatim>\<open>nil\<close>.\<close>

record PoppitCommand =
  Repo :: string
  Branch :: string
  Type :: string
  Dir :: string
  Commands :: "string list"
  Metadata :: "CommandMetadata option"

record CommandOutput =
  Metadata :: "CommandMetadata option"
  Type :: string
  Command :: string
  Output :: string

record SlackReaction =
  Reaction :: string
  Channel :: string
  Ts :: string
  Remove :: bool

subsection \<open>The chat API and the JSON library, as the code sees them\<close>

text \<open>
  A value of Go's \<^verbatim>\<open>interface{}\<close> as the chat client's JSON decoder produces it:
  \<^verbatim>\<open>nil\<close>, \<^verbatim>\<open>bool\<close>, \<^verbatim>\<open>float64\<close> (every finite one is a rational),
  \<^verbatim>\<open>string\<close>, \<^verbatim>\<open>[]interface{}\<close> and \<^verbatim>\<open>map[string]interface{}\<close>.
\<close>

datatype json_value =
    JNull
  | JBool bool
  | JNumber rat
  | JString string
  | JArray "json_value list"
  | JObject "(string \<times> json_value) list"

text \<open>
  \<^verbatim>\<open>message.Metadata.EventPayload\<close> is a \<^verbatim>\<open>map[string]interface{}\<close>: an association
  list, one entry for each key. \<^verbatim>\<open>len(payload) == 0\<close> is emptiness of that list.
\<close>

type_synonym EventPayload = "(string \<times> json_value) list"

record SlackMetadata =
  EventType :: string
  EventPayload :: EventPayload

record Message =
  Metadata :: SlackMetadata

record GetConversationHistoryParameters =
  ChannelID :: string
  Latest :: string
  Inclusive :: bool
  Limit :: int
  IncludeAllMetadata :: bool

text \<open>
  \<^verbatim>\<open>slackClient.GetConversationHistory\<close>: the chat platform answers a request with an
  error or with the messages of the history.
\<close>

type_synonym slackClient = "GetConversationHistoryParameters \<Rightarrow> string + Message list"

text \<open>
  \<^verbatim>\<open>getMessageMetadata\<close> re-encodes the payload with \<^verbatim>\<open>json.Marshal\<close> and decodes the
  bytes into a \<^verbatim>\<open>PRMetadata\<close> with \<^verbatim>\<open>json.Unmarshal\<close>. Both belong to Go's
  standard library, not to this program, so they are parameters of the model; \<open>'b\<close> is
  the type of the encoded bytes.
\<close>

record 'b encoding_json =
  Marshal :: "EventPayload \<Rightarrow> string + 'b"
  Unmarshal :: "'b \<Rightarrow> string + PRMetadata"

subsection \<open>Process state: the log and the message bus\<close>

text \<open>An argument of a \<^verbatim>\<open>log.Printf\<close> call: a string (\<^verbatim>\<open>%s\<close>, \<^verbatim>\<open>%v\<close>) or an integer (\<^verbatim>\<open>%d\<close>).\<close>

datatype fmt_arg = ArgS string | ArgD int

text \<open>
  What is pushed on a bus list: the JSON encoding of a \<^verbatim>\<open>SlackReaction\<close> or of a
  \<^verbatim>\<open>PoppitCommand\<close>, represented by the value it encodes. \<^verbatim>\<open>json.Marshal\<close> cannot
  fail on these two struct types (strings, a bool, a string slice and a pointer to a
  struct of strings), so its error branch is not reachable and has no counterpart here.
\<close>

datatype payload = ReactionPayload SlackReaction | CommandPayload PoppitCommand

text \<open>
  The state the functions act on: the package variable \<^verbatim>\<open>currentLogLevel\<close>, the lines
  written by \<^verbatim>\<open>log.Printf\<close> (format and arguments), the bus lists by name, and the
  trace of the \<^verbatim>\<open>RPush\<close> calls issued so far (list name, payload, whether it succeeded).
\<close>

record state =
  currentLogLevel :: LogLevel
  log_output :: "(string \<times> fmt_arg list) list"
  redis_lists :: "string \<Rightarrow> payload list"
  redis_calls :: "(string \<times> payload \<times> bool) list"

text \<open>
  The bus connection: whether the \<open>n\<close>-th \<^verbatim>\<open>RPush\<close> issued by the process fails, and
  with which error (\<^const>\<open>None\<close>: it succeeds). A failed push leaves the list as it was.
\<close>

type_synonym redisClient = "nat \<Rightarrow> string option"

definition RPush :: "redisClient \<Rightarrow> string \<Rightarrow> payload \<Rightarrow> state \<Rightarrow> string option \<times> state" where
  "RPush redisClient key p s =
     (case redisClient (length (redis_calls s)) of
        Some err \<Rightarrow> (Some err, s\<lparr>redis_calls := redis_calls s @ [(key, p, False)]\<rparr>)
      | None \<Rightarrow>
          (None, s\<lparr>redis_lists := (redis_lists s)(key := redis_lists s key @ [p]),
                   redis_calls := redis_calls s @ [(key, p, True)]\<rparr>))"

subsection \<open>Logging\<close>

definition logDebug :: "string \<Rightarrow> fmt_arg list \<Rightarrow> state \<Rightarrow> state" where
  "logDebug format v s =
     (if currentLogLevel s \<le> DEBUG
      then s\<lparr>log_output := log_output s @ [(''[DEBUG] '' @ format, v)]\<rparr> else s)"

definition logInfo :: "string \<Rightarrow> fmt_arg list \<Rightarrow> state \<Rightarrow> state" where
  "logInfo format v s =
     (if currentLogLevel s \<le> INFO
      then s\<lparr>log_output := log_output s @ [(''[INFO] '' @ format, v)]\<rparr> else s)"

definition logWarn :: "string \<Rightarrow> fmt_arg list \<Rightarrow> state \<Rightarrow> state" where
  "logWarn format v s =
     (if currentLogLevel s \<le> WARN
      then s\<lparr>log_output := log_output s @ [(''[WARN] '' @ format, v)]\<rparr> else s)"

definition logError :: "string \<Rightarrow> fmt_arg list \<Rightarrow> state \<Rightarrow> state" where
  "logError format v s =
     (if currentLogLevel s \<le> ERROR
      then s\<lparr>log_output := log_output s @ [(''[ERROR] '' @ format, v)]\<rparr> else s)"

subsection \<open>Repository allowlist\<close>

text \<open>
  A Go \<^verbatim>\<open>map[string]bool\<close> is an association list with one entry for each key; the
  possibly-\<^verbatim>\<open>nil\<close> map that \<^verbatim>\<open>loadAllowedRepos\<close> returns is an option of it.
  \<^verbatim>\<open>allowedRepos[repo]\<close> on a missing key is \<^verbatim>\<open>false\<close>.
\<close>

type_synonym repo_map = "(string \<times> bool) list"

text \<open>
  The file system as \<^verbatim>\<open>loadAllowedRepos\<close> uses it: \<^verbatim>\<open>os.Stat\<close> (only its error is
  read, and only through \<^verbatim>\<open>os.IsNotExist\<close>) and \<^verbatim>\<open>os.ReadFile\<close>.
\<close>

datatype stat_error = StatNil | StatNotExist | StatOther string

record file_system =
  Stat :: "string \<Rightarrow> stat_error"
  ReadFile :: "string \<Rightarrow> string + string"

definition IsNotExist :: "stat_error \<Rightarrow> bool" where
  "IsNotExist err = (case err of StatNotExist \<Rightarrow> True | _ \<Rightarrow> False)"

text \<open>The loop \<^verbatim>\<open>for _, repo := range config.AllowedRepos { allowedRepos[repo] = true }\<close>.\<close>

fun insertRepos :: "string list \<Rightarrow> repo_map \<Rightarrow> repo_map" where
  "insertRepos [] allowedRepos = allowedRepos"
| "insertRepos (repo # rest) allowedRepos = insertRepos rest (AList.update repo True allowedRepos)"

text \<open>
  \<^verbatim>\<open>yaml.Unmarshal\<close> into an \<^verbatim>\<open>AllowedReposConfig\<close> is a library function and a
  parameter here.
\<close>

definition loadAllowedRepos ::
  "file_system \<Rightarrow> (string \<Rightarrow> string + AllowedReposConfig) \<Rightarrow> string \<Rightarrow> state
     \<Rightarrow> (string + repo_map option) \<times> state" where
  "loadAllowedRepos fs yaml_Unmarshal configPath s =
     (if configPath = '''' then
        (Inr None, logInfo ''No allowed repos config specified, allowing all repositories'' [] s)
      else if IsNotExist (Stat fs configPath) then
        (Inr None,
         logInfo ''Allowed repos config file not found at %s, allowing all repositories''
           [ArgS configPath] s)
      else
        (case ReadFile fs configPath of
           Inl err \<Rightarrow> (Inl (''failed to read allowed repos config: '' @ err), s)
         | Inr data \<Rightarrow>
             (case yaml_Unmarshal data of
                Inl err \<Rightarrow> (Inl (''failed to parse allowed repos config: '' @ err), s)
              | Inr config \<Rightarrow>
                  (let allowedRepos = insertRepos (AllowedRepos config) []
                   in (Inr (Some allowedRepos),
                       logInfo ''Loaded %d allowed repositories from config''
                         [ArgD (int (length allowedRepos))] s)))))"

definition isRepoAllowed :: "string \<Rightarrow> repo_map option \<Rightarrow> bool" where
  "isRepoAllowed repo allowedRepos =
     (case allowedRepos of
        None \<Rightarrow> True
      | Some m \<Rightarrow> (case map_of m repo of None \<Rightarrow> False | Some b \<Rightarrow> b))"

subsection \<open>Metadata resolver\<close>

definition getMessageMetadata ::
  "'b encoding_json \<Rightarrow> slackClient \<Rightarrow> string \<Rightarrow> string \<Rightarrow> string + PRMetadata option" where
  "getMessageMetadata json slackClient channel timestamp =
     (let historyParams = \<lparr>ChannelID = channel, Latest = timestamp, Inclusive = True,
                            Limit = 1, IncludeAllMetadata = True\<rparr>
      in case slackClient historyParams of
           Inl err \<Rightarrow> Inl (''failed to get conversation history: '' @ err)
         | Inr messages \<Rightarrow>
             (case messages of
                [] \<Rightarrow> Inl ''no messages found''
              | message # _ \<Rightarrow>
                  if length (EventPayload (Message.Metadata message)) = 0 then Inr None
                  else
                    (case Marshal json (EventPayload (Message.Metadata message)) of
                       Inl err \<Rightarrow> Inl (''failed to marshal metadata: '' @ err)
                     | Inr metadataJSON \<Rightarrow>
                         (case Unmarshal json metadataJSON of
                            Inl err \<Rightarrow> Inl (''failed to parse PR metadata: '' @ err)
                          | Inr metadata \<Rightarrow>
                              if Repository metadata = '''' \<or> PRMetadata.Branch metadata = ''''
                              then Inr None
                              else Inr (Some metadata)))))"

subsection \<open>Command synthesizer and the two publishers\<close>

definition createPoppitCommand ::
  "PRMetadata \<Rightarrow> Config \<Rightarrow> string \<Rightarrow> string \<Rightarrow> PoppitCommand" where
  "createPoppitCommand metadata config channel timestamp =
     (let dir = BaseDir config @ ''/'' @ Repository metadata
      in \<lparr>PoppitCommand.Repo = Repository metadata,
          PoppitCommand.Branch = PRMetadata.Branch metadata,
          PoppitCommand.Type = VibeDeployType,
          PoppitCommand.Dir = dir,
          PoppitCommand.Commands =
            [''git fetch origin'',
             ''git checkout '' @ PRMetadata.Branch metadata,
             ''git pull'',
             ''docker compose build'',
             ''docker compose down'',
             DeploymentCommand,
             ''git checkout main''],
          PoppitCommand.Metadata =
            Some \<lparr>CommandMetadata.Channel = channel, CommandMetadata.Ts = timestamp\<rparr>\<rparr>)"

definition publishPoppitCommand ::
  "redisClient \<Rightarrow> PoppitCommand \<Rightarrow> Config \<Rightarrow> state \<Rightarrow> string option \<times> state" where
  "publishPoppitCommand redisClient cmd config s =
     (case RPush redisClient (RedisListName config) (CommandPayload cmd) s of
        (Some err, s') \<Rightarrow> (Some (''failed to push to Redis list: '' @ err), s')
      | (None, s') \<Rightarrow> (None, s'))"

definition publishSlackReaction ::
  "redisClient \<Rightarrow> string \<Rightarrow> string \<Rightarrow> string \<Rightarrow> bool \<Rightarrow> Config \<Rightarrow> state
     \<Rightarrow> string option \<times> state" where
  "publishSlackReaction redisClient channel timestamp reaction remove config s =
     (let slackReaction = \<lparr>Reaction = reaction, Channel = channel, Ts = timestamp,
                            Remove = remove\<rparr>
      in case RPush redisClient (RedisReactionList config) (ReactionPayload slackReaction) s of
           (Some err, s') \<Rightarrow> (Some (''failed to push to Redis list: '' @ err), s')
         | (None, s') \<Rightarrow> (None, s'))"

subsection \<open>Reaction events\<close>

text \<open>
  The loop over \<^verbatim>\<open>event.Authorizations\<close> that returns at the first record with
  \<^verbatim>\<open>auth.IsBot && auth.UserID == event.Event.User\<close>: whether it returns early.
\<close>

fun reactionFromBot :: "Authorization list \<Rightarrow> string \<Rightarrow> bool" where
  "reactionFromBot [] user = False"
| "reactionFromBot (auth # rest) user =
     (if IsBot auth \<and> UserID auth = user then True else reactionFromBot rest user)"

text \<open>
  The raw payload is read only through \<^verbatim>\<open>json.Unmarshal\<close>, so it is represented by
  what that call returns: the error, or the decoded \<^verbatim>\<open>ReactionEvent\<close>.
\<close>

definition processReactionEvent ::
  "'b encoding_json \<Rightarrow> slackClient \<Rightarrow> redisClient \<Rightarrow> Config \<Rightarrow> repo_map option
     \<Rightarrow> string + ReactionEvent \<Rightarrow> state \<Rightarrow> state" where
  "processReactionEvent json slackClient redisClient config allowedRepos payload s =
     (case payload of
        Inl err \<Rightarrow> logError ''Error parsing reaction event: %v'' [ArgS err] s
      | Inr event \<Rightarrow>
          (let reaction = ReactionBody.Reaction (Event event);
               item = Item (Event event);
               channel = ReactionItem.Channel item;
               ts = ReactionItem.Ts item
           in if reaction \<noteq> RocketReaction then
                logDebug ''Ignoring reaction: %s (not %s)'' [ArgS reaction, ArgS RocketReaction] s
              else if ReactionItem.Type item \<noteq> ''message'' then
                logDebug ''Ignoring item type: %s (not message)'' [ArgS (ReactionItem.Type item)] s
              else if reactionFromBot (Authorizations event) (User (Event event)) then
                logInfo ''Ignoring %s reaction from bot user %s on message %s in channel %s''
                  [ArgS RocketReaction, ArgS (User (Event event)), ArgS ts, ArgS channel] s
              else
                (let s1 = logInfo ''Processing %s reaction on message %s in channel %s''
                            [ArgS RocketReaction, ArgS ts, ArgS channel] s
                 in case getMessageMetadata json slackClient channel ts of
                      Inl err \<Rightarrow> logError ''Error getting message metadata: %v'' [ArgS err] s1
                    | Inr None \<Rightarrow> logDebug ''No PR metadata found in message, skipping'' [] s1
                    | Inr (Some metadata) \<Rightarrow>
                        (let s2 = logInfo ''Found PR metadata: %s #%d (branch: %s)''
                                    [ArgS (Repository metadata), ArgD (PRNumber metadata),
                                     ArgS (PRMetadata.Branch metadata)] s1
                         in if \<not> isRepoAllowed (Repository metadata) allowedRepos then
                              logInfo ''Repository %s is not in the allowed list, ignoring reaction''
                                [ArgS (Repository metadata)] s2
                            else
                              (let (err, s3) = publishSlackReaction redisClient channel ts
                                                 GearReaction False config s2;
                                   s4 = (case err of
                                           Some e \<Rightarrow>
                                             logError ''Error publishing gear reaction: %v'' [ArgS e] s3
                                         | None \<Rightarrow>
                                             logInfo ''Published gear reaction for channel %s, message %s''
                                               [ArgS channel, ArgS ts] s3);
                                   poppitCmd = createPoppitCommand metadata config channel ts;
                                   (err', s5) = publishPoppitCommand redisClient poppitCmd config s4
                               in case err' of
                                    Some e \<Rightarrow>
                                      logError ''Error publishing Poppit command: %v'' [ArgS e] s5
                                  | None \<Rightarrow>
                                      logInfo ''Successfully published Poppit command for %s branch %s''
                                        [ArgS (Repository metadata),
                                         ArgS (PRMetadata.Branch metadata)] s5)))))"

subsection \<open>Completion notices\<close>

definition processCommandOutput ::
  "redisClient \<Rightarrow> Config \<Rightarrow> string + CommandOutput \<Rightarrow> state \<Rightarrow> state" where
  "processCommandOutput redisClient config payload s =
     (case payload of
        Inl err \<Rightarrow> logError ''Error parsing command output: %v'' [ArgS err] s
      | Inr output \<Rightarrow>
          if CommandOutput.Type output \<noteq> VibeDeployType then
            logDebug ''Ignoring command output type: %s (not %s)''
              [ArgS (CommandOutput.Type output), ArgS VibeDeployType] s
          else if Command output \<noteq> DeploymentCommand then
            logDebug ''Ignoring command: %s (not %s)''
              [ArgS (Command output), ArgS DeploymentCommand] s
          else
            (case CommandOutput.Metadata output of
               None \<Rightarrow>
                 logWarn ''Command output missing metadata (channel and timestamp required), cannot send reaction''
                   [] s
             | Some m \<Rightarrow>
                 (let channel = CommandMetadata.Channel m;
                      ts = CommandMetadata.Ts m;
                      s1 = logInfo ''Processing completion for %s in channel %s, message %s''
                             [ArgS VibeDeployType, ArgS channel, ArgS ts] s;
                      (err, s2) = publishSlackReaction redisClient channel ts GearReaction True
                                    config s1;
                      s3 = (case err of
                              Some e \<Rightarrow> logError ''Error removing gear reaction: %v'' [ArgS e] s2
                            | None \<Rightarrow>
                                logInfo ''Removed gear reaction for channel %s, message %s''
                                  [ArgS channel, ArgS ts] s2);
                      (err', s4) = publishSlackReaction redisClient channel ts RocketReaction False
                                     config s3
                  in case err' of
                       Some e \<Rightarrow> logError ''Error publishing rocket reaction: %v'' [ArgS e] s4
                     | None \<Rightarrow>
                         logInfo ''Successfully published rocket reaction for channel %s, message %s''
                           [ArgS channel, ArgS ts] s4)))"

subsection \<open>Observing the bus\<close>

text \<open>
  The payloads that a stretch of the \<^verbatim>\<open>RPush\<close> trace has put on the list \<open>key\<close>:
  those of the calls on that list that succeeded, in order.
\<close>

definition delivered :: "string \<Rightarrow> (string \<times> payload \<times> bool) list \<Rightarrow> payload list" where
  "delivered key calls = map (\<lambda>c. fst (snd c)) (filter (\<lambda>c. fst c = key \<and> snd (snd c)) calls)"

text \<open>Whether a line of the log was written by \<^verbatim>\<open>logError\<close>.\<close>

definition isErrorLine :: "string \<times> fmt_arg list \<Rightarrow> bool" where
  "isErrorLine line = (take 8 (fst line) = ''[ERROR] '')"

subsection \<open>A concrete environment for the examples\<close>

text \<open>
  An instance of the two library parameters, used only in the examples. It follows the
  rules of Go's \<^verbatim>\<open>encoding/json\<close> for decoding an object into a struct of string fields
  and an \<^verbatim>\<open>int\<close> field: a missing key or a \<^verbatim>\<open>null\<close> leaves the field at its zero value, a
  JSON value of another kind than the field's is an \<^verbatim>\<open>UnmarshalTypeError\<close>, and so
  is a number that is not a 64-bit integer in the \<^verbatim>\<open>int\<close> field. The encoded bytes are
  represented by the object they spell, and encoding a decoded payload cannot fail.

  It is not the library in full, and differs from it outside the examples: keys are
  compared with the tags exactly, where the library also accepts a key that differs in
  letter case; an integral number is taken as it is, where the library first prints the
  \<^verbatim>\<open>float64\<close> in its shortest decimal form and reads that back; the error text of a
  number leaves out the number's literal; and of several type errors the one of the first
  field of the struct is reported, where the library reports the first in the order of the
  sorted keys. The payloads of the examples have lower-case keys, small integers and at
  most one field of a wrong kind, so none of this bears on them, and every theorem on the
  resolver holds for all values of the two parameters.
\<close>

fun json_kind :: "json_value \<Rightarrow> string" where
  "json_kind JNull = ''null''"
| "json_kind (JBool _) = ''bool''"
| "json_kind (JNumber _) = ''number''"
| "json_kind (JString _) = ''string''"
| "json_kind (JArray _) = ''array''"
| "json_kind (JObject _) = ''object''"

definition decode_string_field :: "string \<Rightarrow> EventPayload \<Rightarrow> string + string" where
  "decode_string_field tag obj =
     (case map_of obj tag of
        None \<Rightarrow> Inr ''''
      | Some JNull \<Rightarrow> Inr ''''
      | Some (JString v) \<Rightarrow> Inr v
      | Some other \<Rightarrow>
          Inl (''json: cannot unmarshal '' @ json_kind other
               @ '' into Go struct field PRMetadata.'' @ tag @ '' of type string''))"

definition decode_int_field :: "string \<Rightarrow> EventPayload \<Rightarrow> string + int" where
  "decode_int_field tag obj =
     (case map_of obj tag of
        None \<Rightarrow> Inr 0
      | Some JNull \<Rightarrow> Inr 0
      | Some (JNumber q) \<Rightarrow>
          if of_int \<lfloor>q\<rfloor> = q \<and> - (2 ^ 63) \<le> \<lfloor>q\<rfloor> \<and> \<lfloor>q\<rfloor> < 2 ^ 63 then Inr \<lfloor>q\<rfloor>
          else Inl (''json: cannot unmarshal number into Go struct field PRMetadata.''
                    @ tag @ '' of type int'')
      | Some other \<Rightarrow>
          Inl (''json: cannot unmarshal '' @ json_kind other
               @ '' into Go struct field PRMetadata.'' @ tag @ '' of type int''))"

definition go_Unmarshal :: "EventPayload \<Rightarrow> string + PRMetadata" where
  "go_Unmarshal obj =
     (case decode_int_field ''pr_number'' obj of Inl err \<Rightarrow> Inl err | Inr number \<Rightarrow>
      case decode_string_field ''repository'' obj of Inl err \<Rightarrow> Inl err | Inr repository \<Rightarrow>
      case decode_string_field ''pr_url'' obj of Inl err \<Rightarrow> Inl err | Inr url \<Rightarrow>
      case decode_string_field ''author'' obj of Inl err \<Rightarrow> Inl err | Inr author \<Rightarrow>
      case decode_string_field ''branch'' obj of Inl err \<Rightarrow> Inl err | Inr branch \<Rightarrow>
      case decode_string_field ''event_action'' obj of Inl err \<Rightarrow> Inl err | Inr action \<Rightarrow>
        Inr \<lparr>PRNumber = number, Repository = repository, PRUrl = url, Author = author,
             PRMetadata.Branch = branch, EventAction = action\<rparr>)"

definition go_json :: "EventPayload encoding_json" where
  "go_json = \<lparr>Marshal = Inr, Unmarshal = go_Unmarshal\<rparr>"

text \<open>The configuration that \<^verbatim>\<open>loadConfig\<close> builds from an empty environment (apart from the token).\<close>

definition ex_config :: Config where
  "ex_config =
     \<lparr>RedisAddr = ''localhost:6379'', RedisPassword = '''', SlackToken = ''xoxb-token'',
      BaseDir = ''/app/repos'', RedisPubSub = ''slack-relay-reaction-added'',
      RedisListName = ''poppit-commands'', RedisOutputChannel = ''poppit:command-output'',
      RedisReactionList = ''slack_reactions'', LogLevel = INFO, AllowedReposConfig = ''''\<rparr>"

definition ex_state :: state where
  "ex_state = \<lparr>currentLogLevel = INFO, log_output = [], redis_lists = (\<lambda>_. []), redis_calls = []\<rparr>"

text \<open>A rocket reaction by a human on the message \<open>100.1\<close> of channel \<open>C1\<close>.\<close>

definition ex_event :: ReactionEvent where
  "ex_event =
     \<lparr>Event = \<lparr>ReactionBody.Type = ''reaction_added'', User = ''U123'',
                ReactionBody.Reaction = ''rocket'',
                Item = \<lparr>ReactionItem.Type = ''message'', ReactionItem.Channel = ''C1'',
                         ReactionItem.Ts = ''100.1''\<rparr>\<rparr>,
      Authorizations = [\<lparr>UserID = ''UBOT'', IsBot = True\<rparr>]\<rparr>"

definition ex_message :: "EventPayload \<Rightarrow> Message" where
  "ex_message p = \<lparr>Message.Metadata = \<lparr>EventType = ''pr_opened'', EventPayload = p\<rparr>\<rparr>"

definition ex_payload :: EventPayload where
  "ex_payload =
     [(''pr_number'', JNumber 7), (''repository'', JString ''org/app''),
      (''branch'', JString ''feat/x'')]"

definition ex_metadata :: PRMetadata where
  "ex_metadata =
     \<lparr>PRNumber = 7, Repository = ''org/app'', PRUrl = '''', Author = '''',
      PRMetadata.Branch = ''feat/x'', EventAction = ''''\<rparr>"

text \<open>A chat platform that has one message, at \<open>100.1\<close> in \<open>C1\<close>, carrying the payload \<open>p\<close>.\<close>

definition ex_slack :: "EventPayload \<Rightarrow> slackClient" where
  "ex_slack p params =
     (if ChannelID params = ''C1'' \<and> Latest params = ''100.1'' then Inr [ex_message p]
      else Inl ''channel_not_found'')"

text \<open>A bus that accepts every push, and one whose first push fails.\<close>

definition redis_up :: redisClient where
  "redis_up n = None"

definition redis_first_fails :: redisClient where
  "redis_first_fails n = (if n = 0 then Some ''i/o timeout'' else None)"

text \<open>Three events that the filter rejects: wrong letter case, wrong item type, the bot itself.\<close>

definition ex_event_capitalised :: ReactionEvent where
  "ex_event_capitalised = ex_event\<lparr>Event := (Event ex_event)\<lparr>ReactionBody.Reaction := ''Rocket''\<rparr>\<rparr>"

definition ex_event_on_file :: ReactionEvent where
  "ex_event_on_file =
     ex_event\<lparr>Event := (Event ex_event)\<lparr>Item := (Item (Event ex_event))\<lparr>ReactionItem.Type := ''file''\<rparr>\<rparr>\<rparr>"

definition ex_event_by_bot :: ReactionEvent where
  "ex_event_by_bot = ex_event\<lparr>Event := (Event ex_event)\<lparr>User := ''UBOT''\<rparr>\<rparr>"

text \<open>The completion notice of the go-live instruction for that message, with a given output text.\<close>

definition ex_output :: "string \<Rightarrow> CommandOutput" where
  "ex_output text =
     \<lparr>CommandOutput.Metadata = Some \<lparr>CommandMetadata.Channel = ''C1'', CommandMetadata.Ts = ''100.1''\<rparr>,
      CommandOutput.Type = ''vibe-deploy'', Command = ''docker compose up -d'', Output = text\<rparr>"

text \<open>
  A file system with two allowlist files, and a YAML decoder that knows the two documents
  they hold.
\<close>

definition ex_fs :: file_system where
  "ex_fs =
     \<lparr>Stat = (\<lambda>path. if path = ''/config/empty.yml'' \<or> path = ''/config/allowed-repos.yml''
                     then StatNil else StatNotExist),
      ReadFile = (\<lambda>path. if path = ''/config/empty.yml'' then Inr ''allowed_repos: []''
                         else if path = ''/config/allowed-repos.yml''
                         then Inr ''allowed_repos: [org/other]''
                         else Inl ''open: no such file or directory'')\<rparr>"

definition ex_yaml_Unmarshal :: "string \<Rightarrow> string + AllowedReposConfig" where
  "ex_yaml_Unmarshal data =
     (if data = ''allowed_repos: []'' then Inr \<lparr>AllowedRepos = []\<rparr>
      else if data = ''allowed_repos: [org/other]'' then Inr \<lparr>AllowedRepos = [''org/other'']\<rparr>
      else Inl ''yaml: unmarshal errors'')"

text \<open>
  Two more payloads: one written by another application, whose author is an object and not
  a string, and one without a branch.
\<close>

definition ex_payload_foreign :: EventPayload where
  "ex_payload_foreign =
     [(''author'', JObject [(''name'', JString ''octocat'')]), (''title'', JString ''Build finished'')]"

definition ex_payload_no_branch :: EventPayload where
  "ex_payload_no_branch = [(''repository'', JString ''org/app'')]"

section \<open>Properties\<close>

subsection \<open>The bus and the log\<close>

lemma log_redis [simp]:
  "redis_calls (logDebug f v s) = redis_calls s"
  "redis_calls (logInfo f v s) = redis_calls s"
  "redis_calls (logWarn f v s) = redis_calls s"
  "redis_calls (logError f v s) = redis_calls s"
  "redis_lists (logDebug f v s) = redis_lists s"
  "redis_lists (logInfo f v s) = redis_lists s"
  "redis_lists (logWarn f v s) = redis_lists s"
  "redis_lists (logError f v s) = redis_lists s"
  by (simp_all add: logDebug_def logInfo_def logWarn_def logError_def)

lemma case_log_redis [simp]:
  "redis_calls (case err of None \<Rightarrow> logInfo f v s | Some e \<Rightarrow> logError g (w e) s) = redis_calls s"
  "redis_lists (case err of None \<Rightarrow> logInfo f v s | Some e \<Rightarrow> logError g (w e) s) = redis_lists s"
  by (cases err; simp)+

lemma RPush_calls:
  "redis_calls (snd (RPush rc key p s)) =
     redis_calls s @ [(key, p, rc (length (redis_calls s)) = None)]"
  by (simp add: RPush_def split: option.splits)

lemma RPush_lists:
  "redis_lists (snd (RPush rc key p s)) k =
     redis_lists s k @ delivered k [(key, p, rc (length (redis_calls s)) = None)]"
  by (simp add: RPush_def delivered_def split: option.splits)

lemma publishSlackReaction_snd:
  "snd (publishSlackReaction rc channel ts reaction remove config s) =
     snd (RPush rc (RedisReactionList config)
            (ReactionPayload \<lparr>Reaction = reaction, Channel = channel, Ts = ts, Remove = remove\<rparr>) s)"
  by (simp add: publishSlackReaction_def Let_def split: prod.splits option.splits)

lemma publishPoppitCommand_snd:
  "snd (publishPoppitCommand rc cmd config s) =
     snd (RPush rc (RedisListName config) (CommandPayload cmd) s)"
  by (simp add: publishPoppitCommand_def split: prod.splits option.splits)

lemma publishSlackReaction_calls:
  "redis_calls (snd (publishSlackReaction rc channel ts reaction remove config s)) =
     redis_calls s @ [(RedisReactionList config,
        ReactionPayload \<lparr>Reaction = reaction, Channel = channel, Ts = ts, Remove = remove\<rparr>,
        rc (length (redis_calls s)) = None)]"
  by (simp only: publishSlackReaction_snd RPush_calls)

lemma publishPoppitCommand_calls:
  "redis_calls (snd (publishPoppitCommand rc cmd config s)) =
     redis_calls s @ [(RedisListName config, CommandPayload cmd, rc (length (redis_calls s)) = None)]"
  by (simp only: publishPoppitCommand_snd RPush_calls)

lemma publishSlackReaction_lists:
  "redis_lists (snd (publishSlackReaction rc channel ts reaction remove config s)) k =
     redis_lists s k @ delivered k [(RedisReactionList config,
        ReactionPayload \<lparr>Reaction = reaction, Channel = channel, Ts = ts, Remove = remove\<rparr>,
        rc (length (redis_calls s)) = None)]"
  by (simp only: publishSlackReaction_snd RPush_lists)

lemma publishPoppitCommand_lists:
  "redis_lists (snd (publishPoppitCommand rc cmd config s)) k =
     redis_lists s k
       @ delivered k [(RedisListName config, CommandPayload cmd, rc (length (redis_calls s)) = None)]"
  by (simp only: publishPoppitCommand_snd RPush_lists)

subsection \<open>The paths of \<^verbatim>\<open>processReactionEvent\<close>\<close>

lemma reactionFromBot_iff:
  "reactionFromBot auths user \<longleftrightarrow> (\<exists>auth \<in> set auths. IsBot auth \<and> UserID auth = user)"
  by (induction auths) auto

text \<open>
  An accepted event whose metadata resolves and passes the allowlist issues two pushes:
  the gear reaction, then the command.
\<close>

lemma processReactionEvent_deploy_calls:
  assumes "ReactionBody.Reaction (Event event) = RocketReaction"
    and "ReactionItem.Type (Item (Event event)) = ''message''"
    and "\<not> reactionFromBot (Authorizations event) (User (Event event))"
    and "getMessageMetadata json slackClient (ReactionItem.Channel (Item (Event event)))
           (ReactionItem.Ts (Item (Event event))) = Inr (Some metadata)"
    and "isRepoAllowed (Repository metadata) allowedRepos"
  shows "redis_calls (processReactionEvent json slackClient rc config allowedRepos (Inr event) s) =
     redis_calls s @
       [(RedisReactionList config,
         ReactionPayload \<lparr>Reaction = GearReaction,
            Channel = ReactionItem.Channel (Item (Event event)),
            Ts = ReactionItem.Ts (Item (Event event)), Remove = False\<rparr>,
         rc (length (redis_calls s)) = None),
        (RedisListName config,
         CommandPayload (createPoppitCommand metadata config
            (ReactionItem.Channel (Item (Event event))) (ReactionItem.Ts (Item (Event event)))),
         rc (Suc (length (redis_calls s))) = None)]"
  using assms
  by (simp add: processReactionEvent_def Let_def split_beta publishSlackReaction_calls
        publishPoppitCommand_calls)

lemma processReactionEvent_deploy_lists:
  assumes "ReactionBody.Reaction (Event event) = RocketReaction"
    and "ReactionItem.Type (Item (Event event)) = ''message''"
    and "\<not> reactionFromBot (Authorizations event) (User (Event event))"
    and "getMessageMetadata json slackClient (ReactionItem.Channel (Item (Event event)))
           (ReactionItem.Ts (Item (Event event))) = Inr (Some metadata)"
    and "isRepoAllowed (Repository metadata) allowedRepos"
  shows "redis_lists (processReactionEvent json slackClient rc config allowedRepos (Inr event) s) k =
     redis_lists s k @ delivered k
       [(RedisReactionList config,
         ReactionPayload \<lparr>Reaction = GearReaction,
            Channel = ReactionItem.Channel (Item (Event event)),
            Ts = ReactionItem.Ts (Item (Event event)), Remove = False\<rparr>,
         rc (length (redis_calls s)) = None),
        (RedisListName config,
         CommandPayload (createPoppitCommand metadata config
            (ReactionItem.Channel (Item (Event event))) (ReactionItem.Ts (Item (Event event)))),
         rc (Suc (length (redis_calls s))) = None)]"
  using assms
  by (simp add: processReactionEvent_def Let_def split_beta publishSlackReaction_calls
        publishPoppitCommand_lists publishSlackReaction_lists delivered_def)

text \<open>On every other path nothing is pushed.\<close>

lemma processReactionEvent_skip:
  assumes "(\<exists>err. payload = Inl err) \<or> (\<exists>event. payload = Inr event \<and>
     (ReactionBody.Reaction (Event event) \<noteq> RocketReaction
    \<or> ReactionItem.Type (Item (Event event)) \<noteq> ''message''
    \<or> reactionFromBot (Authorizations event) (User (Event event))
    \<or> (\<exists>e. getMessageMetadata json slackClient (ReactionItem.Channel (Item (Event event)))
           (ReactionItem.Ts (Item (Event event))) = Inl e)
    \<or> getMessageMetadata json slackClient (ReactionItem.Channel (Item (Event event)))
           (ReactionItem.Ts (Item (Event event))) = Inr None
    \<or> (\<exists>metadata. getMessageMetadata json slackClient (ReactionItem.Channel (Item (Event event)))
           (ReactionItem.Ts (Item (Event event))) = Inr (Some metadata)
          \<and> \<not> isRepoAllowed (Repository metadata) allowedRepos)))"
  shows "redis_calls (processReactionEvent json slackClient rc config allowedRepos payload s) = redis_calls s
     \<and> redis_lists (processReactionEvent json slackClient rc config allowedRepos payload s) = redis_lists s"
  using assms
  by (auto simp add: processReactionEvent_def Let_def split: option.splits sum.splits)

text \<open>Every run takes one of the two: it pushes nothing, or it is on the deploy path.\<close>

lemma processReactionEvent_trace:
  "(redis_calls (processReactionEvent json slackClient rc config allowedRepos payload s) = redis_calls s
      \<and> redis_lists (processReactionEvent json slackClient rc config allowedRepos payload s) = redis_lists s)
   \<or> (\<exists>event metadata. payload = Inr event
        \<and> ReactionBody.Reaction (Event event) = RocketReaction
        \<and> ReactionItem.Type (Item (Event event)) = ''message''
        \<and> \<not> reactionFromBot (Authorizations event) (User (Event event))
        \<and> getMessageMetadata json slackClient (ReactionItem.Channel (Item (Event event)))
             (ReactionItem.Ts (Item (Event event))) = Inr (Some metadata)
        \<and> isRepoAllowed (Repository metadata) allowedRepos)"
proof (cases payload)
  case (Inl err)
  then show ?thesis
    using processReactionEvent_skip [of payload json slackClient allowedRepos rc config s]
    by blast
next
  case (Inr event)
  show ?thesis
  proof (cases "getMessageMetadata json slackClient (ReactionItem.Channel (Item (Event event)))
             (ReactionItem.Ts (Item (Event event)))")
    case (Inl e)
    then show ?thesis
      using Inr processReactionEvent_skip [of payload json slackClient allowedRepos rc config s]
      by blast
  next
    case resolved: (Inr res)
    show ?thesis
    proof (cases res)
      case None
      then show ?thesis
        using resolved Inr
          processReactionEvent_skip [of payload json slackClient allowedRepos rc config s]
        by blast
    next
      case (Some metadata)
      then show ?thesis
        using resolved Inr
          processReactionEvent_skip [of payload json slackClient allowedRepos rc config s]
        by blast
    qed
  qed
qed

subsection \<open>The paths of \<^verbatim>\<open>processCommandOutput\<close>\<close>

lemma processCommandOutput_match_calls:
  assumes "CommandOutput.Type output = VibeDeployType"
    and "Command output = DeploymentCommand"
    and "CommandOutput.Metadata output = Some m"
  shows "redis_calls (processCommandOutput rc config (Inr output) s) =
     redis_calls s @
       [(RedisReactionList config,
         ReactionPayload \<lparr>Reaction = GearReaction, Channel = CommandMetadata.Channel m,
            Ts = CommandMetadata.Ts m, Remove = True\<rparr>,
         rc (length (redis_calls s)) = None),
        (RedisReactionList config,
         ReactionPayload \<lparr>Reaction = RocketReaction, Channel = CommandMetadata.Channel m,
            Ts = CommandMetadata.Ts m, Remove = False\<rparr>,
         rc (Suc (length (redis_calls s))) = None)]"
  using assms
  by (simp add: processCommandOutput_def Let_def split_beta publishSlackReaction_calls)

lemma processCommandOutput_match_lists:
  assumes "CommandOutput.Type output = VibeDeployType"
    and "Command output = DeploymentCommand"
    and "CommandOutput.Metadata output = Some m"
  shows "redis_lists (processCommandOutput rc config (Inr output) s) k =
     redis_lists s k @ delivered k
       [(RedisReactionList config,
         ReactionPayload \<lparr>Reaction = GearReaction, Channel = CommandMetadata.Channel m,
            Ts = CommandMetadata.Ts m, Remove = True\<rparr>,
         rc (length (redis_calls s)) = None),
        (RedisReactionList config,
         ReactionPayload \<lparr>Reaction = RocketReaction, Channel = CommandMetadata.Channel m,
            Ts = CommandMetadata.Ts m, Remove = False\<rparr>,
         rc (Suc (length (redis_calls s))) = None)]"
  using assms
  by (simp add: processCommandOutput_def Let_def split_beta publishSlackReaction_calls
        publishSlackReaction_lists delivered_def)

lemma processCommandOutput_skip:
  assumes "CommandOutput.Type output \<noteq> VibeDeployType
     \<or> Command output \<noteq> DeploymentCommand
     \<or> CommandOutput.Metadata output = None"
  shows "redis_calls (processCommandOutput rc config (Inr output) s) = redis_calls s
     \<and> redis_lists (processCommandOutput rc config (Inr output) s) = redis_lists s"
  using assms
  by (auto simp add: processCommandOutput_def)

subsection \<open>The allowlist map and the error lines of the log\<close>

lemma map_of_insertRepos:
  "map_of (insertRepos repos m) repo = (if repo \<in> set repos then Some True else map_of m repo)"
  by (induction repos arbitrary: m) (auto simp add: update_conv')

lemma isRepoAllowed_loaded:
  "isRepoAllowed repo (Some (insertRepos repos [])) \<longleftrightarrow> repo \<in> set repos"
  by (simp add: isRepoAllowed_def map_of_insertRepos)

lemma log_lines [simp]:
  "filter isErrorLine (log_output (logDebug f v s)) = filter isErrorLine (log_output s)"
  "filter isErrorLine (log_output (logInfo f v s)) = filter isErrorLine (log_output s)"
  "filter isErrorLine (log_output (logWarn f v s)) = filter isErrorLine (log_output s)"
  by (simp_all add: logDebug_def logInfo_def logWarn_def isErrorLine_def)

subsection \<open>The examples evaluated\<close>

lemma ex_resolves:
  "getMessageMetadata go_json (ex_slack ex_payload) ''C1'' ''100.1'' = Inr (Some ex_metadata)"
  by (simp add: getMessageMetadata_def go_json_def go_Unmarshal_def decode_int_field_def
        decode_string_field_def ex_slack_def ex_message_def ex_payload_def ex_metadata_def)

lemma ex_event_fields:
  "ReactionBody.Reaction (Event ex_event) = ''rocket''"
  "ReactionItem.Type (Item (Event ex_event)) = ''message''"
  "ReactionItem.Channel (Item (Event ex_event)) = ''C1''"
  "ReactionItem.Ts (Item (Event ex_event)) = ''100.1''"
  "User (Event ex_event) = ''U123''"
  "\<not> reactionFromBot (Authorizations ex_event) (User (Event ex_event))"
  by (simp_all add: ex_event_def)

lemma ex_deploy_calls:
  "redis_calls (processReactionEvent go_json (ex_slack ex_payload) rc ex_config None
                  (Inr ex_event) ex_state)
     = [(''slack_reactions'',
         ReactionPayload \<lparr>Reaction = ''gear'', Channel = ''C1'', Ts = ''100.1'', Remove = False\<rparr>,
         rc 0 = None),
        (''poppit-commands'',
         CommandPayload (createPoppitCommand ex_metadata ex_config ''C1'' ''100.1''),
         rc (Suc 0) = None)]"
proof -
  have h1: "ReactionBody.Reaction (Event ex_event) = RocketReaction"
    by (simp add: ex_event_fields RocketReaction_def)
  have h4: "getMessageMetadata go_json (ex_slack ex_payload)
              (ReactionItem.Channel (Item (Event ex_event)))
              (ReactionItem.Ts (Item (Event ex_event))) = Inr (Some ex_metadata)"
    by (simp add: ex_event_fields ex_resolves)
  have h5: "isRepoAllowed (Repository ex_metadata) None"
    by (simp add: isRepoAllowed_def)
  show ?thesis
    using processReactionEvent_deploy_calls [OF h1 ex_event_fields(2) ex_event_fields(6) h4 h5,
        of rc ex_config ex_state]
    by (simp add: ex_event_fields ex_config_def ex_state_def GearReaction_def)
qed

lemma ex_output_fields:
  "CommandOutput.Type (ex_output text) = ''vibe-deploy''"
  "Command (ex_output text) = ''docker compose up -d''"
  "CommandOutput.Metadata (ex_output text)
     = Some \<lparr>CommandMetadata.Channel = ''C1'', CommandMetadata.Ts = ''100.1''\<rparr>"
  by (simp_all add: ex_output_def)

subsection \<open>C1: one deployment command for each resolved, permitted reaction\<close>

text \<open>
  Claim C1. When an accepted reaction event resolves to a \<^verbatim>\<open>PRMetadata\<close> (whose repository
  and branch are then non-empty) that the allowlist permits, processing the event
  issues exactly one push of a deployment command, on the command list and after the gear
  reaction. Its repo and branch are the metadata's, its type tag is \<open>vibe-deploy\<close>, its dir
  is the base directory, a slash and the repository, and its instructions are, in order:
  fetch, checkout of the branch, pull, build, down, up, checkout of main. Whenever the bus
  accepts that push, the command list grows by exactly this one command.
\<close>

theorem C1_one_deployment_command:
  assumes "ReactionBody.Reaction (Event event) = ''rocket''"
    and "ReactionItem.Type (Item (Event event)) = ''message''"
    and "\<not> reactionFromBot (Authorizations event) (User (Event event))"
    and "getMessageMetadata json slackClient (ReactionItem.Channel (Item (Event event)))
           (ReactionItem.Ts (Item (Event event))) = Inr (Some metadata)"
    and "isRepoAllowed (Repository metadata) allowedRepos"
  shows "Repository metadata \<noteq> '''' \<and> PRMetadata.Branch metadata \<noteq> '''' \<and>
    (\<exists>cmd gear.
       redis_calls (processReactionEvent json slackClient redisClient config allowedRepos
                      (Inr event) s)
         = redis_calls s @
             [(RedisReactionList config, ReactionPayload gear,
               redisClient (length (redis_calls s)) = None),
              (RedisListName config, CommandPayload cmd,
               redisClient (Suc (length (redis_calls s))) = None)]
     \<and> Repo cmd = Repository metadata
     \<and> PoppitCommand.Branch cmd = PRMetadata.Branch metadata
     \<and> PoppitCommand.Type cmd = ''vibe-deploy''
     \<and> Dir cmd = BaseDir config @ ''/'' @ Repository metadata
     \<and> Commands cmd =
         [''git fetch origin'', ''git checkout '' @ PRMetadata.Branch metadata, ''git pull'',
          ''docker compose build'', ''docker compose down'', ''docker compose up -d'',
          ''git checkout main'']
     \<and> (redisClient (Suc (length (redis_calls s))) = None \<longrightarrow>
          (\<exists>before.
             redis_lists (processReactionEvent json slackClient redisClient config allowedRepos
                            (Inr event) s) (RedisListName config)
               = redis_lists s (RedisListName config) @ before @ [CommandPayload cmd]
           \<and> (\<forall>c. CommandPayload c \<notin> set before))))"
proof -
  let ?ch = "ReactionItem.Channel (Item (Event event))"
  let ?ts = "ReactionItem.Ts (Item (Event event))"
  let ?s' = "processReactionEvent json slackClient redisClient config allowedRepos (Inr event) s"
  let ?cmd = "createPoppitCommand metadata config ?ch ?ts"
  let ?gear = "\<lparr>Reaction = GearReaction, Channel = ?ch, Ts = ?ts, Remove = False\<rparr>"
  have rocket: "ReactionBody.Reaction (Event event) = RocketReaction"
    using assms(1) by (simp add: RocketReaction_def)
  have nonempty: "Repository metadata \<noteq> '''' \<and> PRMetadata.Branch metadata \<noteq> ''''"
    using assms(4)
    by (auto simp add: getMessageMetadata_def Let_def split: sum.splits list.splits if_splits)
  have calls: "redis_calls ?s' = redis_calls s @
             [(RedisReactionList config, ReactionPayload ?gear,
               redisClient (length (redis_calls s)) = None),
              (RedisListName config, CommandPayload ?cmd,
               redisClient (Suc (length (redis_calls s))) = None)]"
    by (rule processReactionEvent_deploy_calls [OF rocket assms(2-5)])
  have fields: "Repo ?cmd = Repository metadata
     \<and> PoppitCommand.Branch ?cmd = PRMetadata.Branch metadata
     \<and> PoppitCommand.Type ?cmd = ''vibe-deploy''
     \<and> Dir ?cmd = BaseDir config @ ''/'' @ Repository metadata
     \<and> Commands ?cmd =
         [''git fetch origin'', ''git checkout '' @ PRMetadata.Branch metadata, ''git pull'',
          ''docker compose build'', ''docker compose down'', ''docker compose up -d'',
          ''git checkout main'']"
    by (simp add: createPoppitCommand_def VibeDeployType_def DeploymentCommand_def)
  have lists: "redisClient (Suc (length (redis_calls s))) = None \<longrightarrow>
          (\<exists>before. redis_lists ?s' (RedisListName config)
               = redis_lists s (RedisListName config) @ before @ [CommandPayload ?cmd]
           \<and> (\<forall>c. CommandPayload c \<notin> set before))"
  proof
    assume ok: "redisClient (Suc (length (redis_calls s))) = None"
    have "redis_lists ?s' (RedisListName config)
        = redis_lists s (RedisListName config)
          @ delivered (RedisListName config)
              [(RedisReactionList config, ReactionPayload ?gear,
                redisClient (length (redis_calls s)) = None)]
          @ [CommandPayload ?cmd]"
      using ok processReactionEvent_deploy_lists [OF rocket assms(2-5), of redisClient config s
          "RedisListName config"]
      by (simp add: delivered_def)
    moreover have "\<forall>c. CommandPayload c \<notin> set (delivered (RedisListName config)
              [(RedisReactionList config, ReactionPayload ?gear,
                redisClient (length (redis_calls s)) = None)])"
      by (simp add: delivered_def)
    ultimately show "\<exists>before. redis_lists ?s' (RedisListName config)
               = redis_lists s (RedisListName config) @ before @ [CommandPayload ?cmd]
           \<and> (\<forall>c. CommandPayload c \<notin> set before)"
      by blast
  qed
  have "\<exists>cmd gear.
       redis_calls ?s'
         = redis_calls s @
             [(RedisReactionList config, ReactionPayload gear,
               redisClient (length (redis_calls s)) = None),
              (RedisListName config, CommandPayload cmd,
               redisClient (Suc (length (redis_calls s))) = None)]
     \<and> Repo cmd = Repository metadata
     \<and> PoppitCommand.Branch cmd = PRMetadata.Branch metadata
     \<and> PoppitCommand.Type cmd = ''vibe-deploy''
     \<and> Dir cmd = BaseDir config @ ''/'' @ Repository metadata
     \<and> Commands cmd =
         [''git fetch origin'', ''git checkout '' @ PRMetadata.Branch metadata, ''git pull'',
          ''docker compose build'', ''docker compose down'', ''docker compose up -d'',
          ''git checkout main'']
     \<and> (redisClient (Suc (length (redis_calls s))) = None \<longrightarrow>
          (\<exists>before.
             redis_lists ?s' (RedisListName config)
               = redis_lists s (RedisListName config) @ before @ [CommandPayload cmd]
           \<and> (\<forall>c. CommandPayload c \<notin> set before)))"
    using calls fields lists
    by (intro exI [of _ ?cmd] exI [of _ ?gear]) (simp only: simp_thms)
  with nonempty show ?thesis by (simp only: simp_thms)
qed

theorem C1_one_deployment_command_witness:
  "ReactionBody.Reaction (Event ex_event) = ''rocket''
   \<and> ReactionItem.Type (Item (Event ex_event)) = ''message''
   \<and> \<not> reactionFromBot (Authorizations ex_event) (User (Event ex_event))
   \<and> getMessageMetadata go_json (ex_slack ex_payload) ''C1'' ''100.1'' = Inr (Some ex_metadata)
   \<and> isRepoAllowed (Repository ex_metadata) None
   \<and> (\<exists>cmd gear.
       redis_calls (processReactionEvent go_json (ex_slack ex_payload) redis_up ex_config None
                      (Inr ex_event) ex_state)
         = [(''slack_reactions'', ReactionPayload gear, True),
            (''poppit-commands'', CommandPayload cmd, True)]
     \<and> Repo cmd = ''org/app''
     \<and> PoppitCommand.Branch cmd = ''feat/x''
     \<and> PoppitCommand.Type cmd = ''vibe-deploy''
     \<and> Dir cmd = ''/app/repos/org/app''
     \<and> Commands cmd =
         [''git fetch origin'', ''git checkout feat/x'', ''git pull'',
          ''docker compose build'', ''docker compose down'', ''docker compose up -d'',
          ''git checkout main''])"
proof -
  have h4: "getMessageMetadata go_json (ex_slack ex_payload)
              (ReactionItem.Channel (Item (Event ex_event)))
              (ReactionItem.Ts (Item (Event ex_event))) = Inr (Some ex_metadata)"
    by (simp add: ex_event_fields ex_resolves)
  have h5: "isRepoAllowed (Repository ex_metadata) None"
    by (simp add: isRepoAllowed_def)
  show ?thesis
    using C1_one_deployment_command [OF ex_event_fields(1) ex_event_fields(2) ex_event_fields(6) h4 h5,
        of redis_up ex_config ex_state] h5 ex_event_fields(6)
    by (simp add: ex_event_fields ex_resolves ex_metadata_def ex_config_def ex_state_def
          redis_up_def) blast
qed

subsection \<open>C9: every synthesized command carries its correlation block\<close>

text \<open>
  Claim C9. The command built by \<^verbatim>\<open>createPoppitCommand\<close> always has a non-nil metadata
  block holding the channel and timestamp it was given, and every command that
  \<^verbatim>\<open>processReactionEvent\<close> pushes while processing an event carries the channel and
  timestamp of that event's item: no command is emitted without routing metadata.
\<close>

theorem C9_command_carries_correlation:
  "PoppitCommand.Metadata (createPoppitCommand metadata config channel timestamp)
     = Some \<lparr>CommandMetadata.Channel = channel, CommandMetadata.Ts = timestamp\<rparr>
   \<and> (\<exists>new.
        redis_calls (processReactionEvent json slackClient redisClient config allowedRepos
                       (Inr event) s) = redis_calls s @ new
      \<and> (\<forall>key cmd ok. (key, CommandPayload cmd, ok) \<in> set new \<longrightarrow>
            PoppitCommand.Metadata cmd
              = Some \<lparr>CommandMetadata.Channel = ReactionItem.Channel (Item (Event event)),
                      CommandMetadata.Ts = ReactionItem.Ts (Item (Event event))\<rparr>))"
proof
  show "PoppitCommand.Metadata (createPoppitCommand metadata config channel timestamp)
     = Some \<lparr>CommandMetadata.Channel = channel, CommandMetadata.Ts = timestamp\<rparr>"
    by (simp add: createPoppitCommand_def)
next
  let ?s' = "processReactionEvent json slackClient redisClient config allowedRepos (Inr event) s"
  let ?ch = "ReactionItem.Channel (Item (Event event))"
  let ?ts = "ReactionItem.Ts (Item (Event event))"
  let ?P = "\<lambda>new. \<forall>key cmd ok. (key, CommandPayload cmd, ok) \<in> set new \<longrightarrow>
            PoppitCommand.Metadata cmd
              = Some \<lparr>CommandMetadata.Channel = ?ch, CommandMetadata.Ts = ?ts\<rparr>"
  from processReactionEvent_trace [of json slackClient redisClient config allowedRepos "Inr event" s]
  consider (skip) "redis_calls ?s' = redis_calls s"
    | (deploy) md where "ReactionBody.Reaction (Event event) = RocketReaction"
        "ReactionItem.Type (Item (Event event)) = ''message''"
        "\<not> reactionFromBot (Authorizations event) (User (Event event))"
        "getMessageMetadata json slackClient ?ch ?ts = Inr (Some md)"
        "isRepoAllowed (Repository md) allowedRepos"
    by auto
  then show "\<exists>new. redis_calls ?s' = redis_calls s @ new \<and> ?P new"
  proof cases
    case skip
    then have "redis_calls ?s' = redis_calls s @ [] \<and> ?P []" by simp
    then show ?thesis by (rule exI [of _ "[]"])
  next
    case deploy
    let ?new = "[(RedisReactionList config,
         ReactionPayload \<lparr>Reaction = GearReaction, Channel = ?ch, Ts = ?ts, Remove = False\<rparr>,
         redisClient (length (redis_calls s)) = None),
        (RedisListName config, CommandPayload (createPoppitCommand md config ?ch ?ts),
         redisClient (Suc (length (redis_calls s))) = None)]"
    have "redis_calls ?s' = redis_calls s @ ?new"
      by (rule processReactionEvent_deploy_calls [OF deploy])
    moreover have "?P ?new"
      by (simp add: createPoppitCommand_def)
    ultimately have "redis_calls ?s' = redis_calls s @ ?new \<and> ?P ?new" ..
    then show ?thesis by (rule exI [of _ ?new])
  qed
qed

theorem C9_command_carries_correlation_witness:
  "(''poppit-commands'', CommandPayload (createPoppitCommand ex_metadata ex_config ''C1'' ''100.1''),
      True)
     \<in> set (redis_calls (processReactionEvent go_json (ex_slack ex_payload) redis_up ex_config None
                 (Inr ex_event) ex_state))
   \<and> PoppitCommand.Metadata (createPoppitCommand ex_metadata ex_config ''C1'' ''100.1'')
       = Some \<lparr>CommandMetadata.Channel = ''C1'', CommandMetadata.Ts = ''100.1''\<rparr>"
proof -
  let ?s' = "processReactionEvent go_json (ex_slack ex_payload) redis_up ex_config None
                 (Inr ex_event) ex_state"
  let ?cmd = "createPoppitCommand ex_metadata ex_config ''C1'' ''100.1''"
  have mem: "(''poppit-commands'', CommandPayload ?cmd, True) \<in> set (redis_calls ?s')"
    by (simp add: ex_deploy_calls redis_up_def)
  from C9_command_carries_correlation [of ex_metadata ex_config "''C1''" "''100.1''" go_json
      "ex_slack ex_payload" redis_up None ex_event ex_state]
  obtain new where new: "redis_calls ?s' = redis_calls ex_state @ new"
    and all: "\<forall>key cmd ok. (key, CommandPayload cmd, ok) \<in> set new \<longrightarrow>
            PoppitCommand.Metadata cmd
              = Some \<lparr>CommandMetadata.Channel = ReactionItem.Channel (Item (Event ex_event)),
                      CommandMetadata.Ts = ReactionItem.Ts (Item (Event ex_event))\<rparr>"
    by blast
  from new have "new = redis_calls ?s'" by (simp add: ex_state_def)
  with mem all have "PoppitCommand.Metadata ?cmd
              = Some \<lparr>CommandMetadata.Channel = ReactionItem.Channel (Item (Event ex_event)),
                      CommandMetadata.Ts = ReactionItem.Ts (Item (Event ex_event))\<rparr>"
    by blast
  with mem show ?thesis by (simp add: ex_event_fields)
qed

subsection \<open>C3: the gear reaction is attempted before the command is enqueued\<close>

text \<open>
  Claim C3. The pushes issued while processing one reaction event are either none, or
  exactly two: first one attempt to publish the add-gear reaction, then the push of the
  deployment command, whose correlation block names the same channel and timestamp as the
  reaction. Whether the second push succeeds depends on the bus alone: when the gear push
  fails and the bus accepts the next push, the command is still put on the command list.
\<close>

theorem C3_gear_attempt_precedes_command:
  "(\<exists>new.
      redis_calls (processReactionEvent json slackClient redisClient config allowedRepos payload s)
        = redis_calls s @ new
    \<and> (new = []
       \<or> (\<exists>cmd channel ts.
             new = [(RedisReactionList config,
                     ReactionPayload \<lparr>Reaction = ''gear'', Channel = channel, Ts = ts,
                                      Remove = False\<rparr>,
                     redisClient (length (redis_calls s)) = None),
                    (RedisListName config, CommandPayload cmd,
                     redisClient (Suc (length (redis_calls s))) = None)]
           \<and> PoppitCommand.Metadata cmd
               = Some \<lparr>CommandMetadata.Channel = channel, CommandMetadata.Ts = ts\<rparr>)))
   \<and> (ReactionBody.Reaction (Event event) = ''rocket''
      \<and> ReactionItem.Type (Item (Event event)) = ''message''
      \<and> \<not> reactionFromBot (Authorizations event) (User (Event event))
      \<and> getMessageMetadata json slackClient (ReactionItem.Channel (Item (Event event)))
           (ReactionItem.Ts (Item (Event event))) = Inr (Some metadata)
      \<and> isRepoAllowed (Repository metadata) allowedRepos
      \<and> redisClient (length (redis_calls s)) = Some e
      \<and> redisClient (Suc (length (redis_calls s))) = None
      \<longrightarrow> redis_lists (processReactionEvent json slackClient redisClient config allowedRepos
                         (Inr event) s) (RedisListName config)
            = redis_lists s (RedisListName config)
              @ [CommandPayload (createPoppitCommand metadata config
                   (ReactionItem.Channel (Item (Event event)))
                   (ReactionItem.Ts (Item (Event event))))])"
proof (intro conjI impI)
  let ?s' = "processReactionEvent json slackClient redisClient config allowedRepos payload s"
  let ?n = "length (redis_calls s)"
  let ?Q = "\<lambda>new. new = []
       \<or> (\<exists>cmd channel ts.
             new = [(RedisReactionList config,
                     ReactionPayload \<lparr>Reaction = ''gear'', Channel = channel, Ts = ts,
                                      Remove = False\<rparr>,
                     redisClient ?n = None),
                    (RedisListName config, CommandPayload cmd, redisClient (Suc ?n) = None)]
           \<and> PoppitCommand.Metadata cmd
               = Some \<lparr>CommandMetadata.Channel = channel, CommandMetadata.Ts = ts\<rparr>)"
  from processReactionEvent_trace [of json slackClient redisClient config allowedRepos payload s]
  consider (skip) "redis_calls ?s' = redis_calls s"
    | (deploy) ev md where "payload = Inr ev"
        "ReactionBody.Reaction (Event ev) = RocketReaction"
        "ReactionItem.Type (Item (Event ev)) = ''message''"
        "\<not> reactionFromBot (Authorizations ev) (User (Event ev))"
        "getMessageMetadata json slackClient (ReactionItem.Channel (Item (Event ev)))
           (ReactionItem.Ts (Item (Event ev))) = Inr (Some md)"
        "isRepoAllowed (Repository md) allowedRepos"
    by blast
  then show "\<exists>new. redis_calls ?s' = redis_calls s @ new \<and> ?Q new"
  proof cases
    case skip
    then have "redis_calls ?s' = redis_calls s @ [] \<and> ?Q []" by simp
    then show ?thesis by (rule exI [of _ "[]"])
  next
    case deploy
    let ?ch = "ReactionItem.Channel (Item (Event ev))"
    let ?ts = "ReactionItem.Ts (Item (Event ev))"
    let ?cmd = "createPoppitCommand md config ?ch ?ts"
    let ?new = "[(RedisReactionList config,
         ReactionPayload \<lparr>Reaction = ''gear'', Channel = ?ch, Ts = ?ts, Remove = False\<rparr>,
         redisClient ?n = None),
        (RedisListName config, CommandPayload ?cmd, redisClient (Suc ?n) = None)]"
    have "redis_calls ?s' = redis_calls s @ ?new"
      using processReactionEvent_deploy_calls [OF deploy(2-6), of redisClient config s] deploy(1)
      by (simp add: GearReaction_def)
    moreover have "PoppitCommand.Metadata ?cmd
               = Some \<lparr>CommandMetadata.Channel = ?ch, CommandMetadata.Ts = ?ts\<rparr>"
      by (simp add: createPoppitCommand_def)
    then have "?Q ?new" by blast
    ultimately have "redis_calls ?s' = redis_calls s @ ?new \<and> ?Q ?new" ..
    then show ?thesis by (rule exI [of _ ?new])
  qed
next
  assume h: "ReactionBody.Reaction (Event event) = ''rocket''
      \<and> ReactionItem.Type (Item (Event event)) = ''message''
      \<and> \<not> reactionFromBot (Authorizations event) (User (Event event))
      \<and> getMessageMetadata json slackClient (ReactionItem.Channel (Item (Event event)))
           (ReactionItem.Ts (Item (Event event))) = Inr (Some metadata)
      \<and> isRepoAllowed (Repository metadata) allowedRepos
      \<and> redisClient (length (redis_calls s)) = Some e
      \<and> redisClient (Suc (length (redis_calls s))) = None"
  then have rocket: "ReactionBody.Reaction (Event event) = RocketReaction"
    by (simp add: RocketReaction_def)
  from h have rest: "ReactionItem.Type (Item (Event event)) = ''message''"
      "\<not> reactionFromBot (Authorizations event) (User (Event event))"
      "getMessageMetadata json slackClient (ReactionItem.Channel (Item (Event event)))
           (ReactionItem.Ts (Item (Event event))) = Inr (Some metadata)"
      "isRepoAllowed (Repository metadata) allowedRepos"
    by simp_all
  show "redis_lists (processReactionEvent json slackClient redisClient config allowedRepos
                         (Inr event) s) (RedisListName config)
            = redis_lists s (RedisListName config)
              @ [CommandPayload (createPoppitCommand metadata config
                   (ReactionItem.Channel (Item (Event event)))
                   (ReactionItem.Ts (Item (Event event))))]"
    using processReactionEvent_deploy_lists [OF rocket rest, of redisClient config s
        "RedisListName config"] h
    by (simp add: delivered_def)
qed

theorem C3_gear_attempt_precedes_command_witness:
  "ReactionBody.Reaction (Event ex_event) = ''rocket''
   \<and> ReactionItem.Type (Item (Event ex_event)) = ''message''
   \<and> \<not> reactionFromBot (Authorizations ex_event) (User (Event ex_event))
   \<and> getMessageMetadata go_json (ex_slack ex_payload) ''C1'' ''100.1'' = Inr (Some ex_metadata)
   \<and> isRepoAllowed (Repository ex_metadata) None
   \<and> redis_first_fails 0 = Some ''i/o timeout''
   \<and> redis_first_fails (Suc 0) = None
   \<and> redis_calls (processReactionEvent go_json (ex_slack ex_payload) redis_first_fails ex_config
                    None (Inr ex_event) ex_state)
       = [(''slack_reactions'',
           ReactionPayload \<lparr>Reaction = ''gear'', Channel = ''C1'', Ts = ''100.1'', Remove = False\<rparr>,
           False),
          (''poppit-commands'',
           CommandPayload (createPoppitCommand ex_metadata ex_config ''C1'' ''100.1''), True)]
   \<and> redis_lists (processReactionEvent go_json (ex_slack ex_payload) redis_first_fails ex_config
                    None (Inr ex_event) ex_state) ''poppit-commands''
       = [CommandPayload (createPoppitCommand ex_metadata ex_config ''C1'' ''100.1'')]"
proof -
  let ?s' = "processReactionEvent go_json (ex_slack ex_payload) redis_first_fails ex_config
               None (Inr ex_event) ex_state"
  have resolved: "getMessageMetadata go_json (ex_slack ex_payload)
              (ReactionItem.Channel (Item (Event ex_event)))
              (ReactionItem.Ts (Item (Event ex_event))) = Inr (Some ex_metadata)"
    by (simp add: ex_event_fields ex_resolves)
  have allowed: "isRepoAllowed (Repository ex_metadata) None"
    by (simp add: isRepoAllowed_def)
  have first: "redis_first_fails (length (redis_calls ex_state)) = Some ''i/o timeout''"
    by (simp add: redis_first_fails_def ex_state_def)
  have second: "redis_first_fails (Suc (length (redis_calls ex_state))) = None"
    by (simp add: redis_first_fails_def ex_state_def)
  have calls: "redis_calls ?s'
       = [(''slack_reactions'',
           ReactionPayload \<lparr>Reaction = ''gear'', Channel = ''C1'', Ts = ''100.1'', Remove = False\<rparr>,
           False),
          (''poppit-commands'',
           CommandPayload (createPoppitCommand ex_metadata ex_config ''C1'' ''100.1''), True)]"
    by (simp add: ex_deploy_calls redis_first_fails_def)
  have "redis_lists ?s' (RedisListName ex_config)
          = redis_lists ex_state (RedisListName ex_config)
            @ [CommandPayload (createPoppitCommand ex_metadata ex_config
                 (ReactionItem.Channel (Item (Event ex_event)))
                 (ReactionItem.Ts (Item (Event ex_event))))]"
    using C3_gear_attempt_precedes_command [of go_json "ex_slack ex_payload" redis_first_fails
        ex_config None "Inr ex_event" ex_state ex_event ex_metadata "''i/o timeout''"]
      ex_event_fields(1) ex_event_fields(2) ex_event_fields(6) resolved allowed first second
    by blast
  then have lists: "redis_lists ?s' ''poppit-commands''
       = [CommandPayload (createPoppitCommand ex_metadata ex_config ''C1'' ''100.1'')]"
    by (simp add: ex_event_fields ex_config_def ex_state_def)
  have f0: "redis_first_fails 0 = Some ''i/o timeout''" and f1: "redis_first_fails (Suc 0) = None"
    by (simp_all add: redis_first_fails_def)
  from ex_event_fields(1) ex_event_fields(2) ex_event_fields(6) ex_resolves allowed f0 f1
    calls lists
  show ?thesis by (intro conjI)
qed

subsection \<open>C4: rejected events publish nothing\<close>

text \<open>
  Claim C4. For an inbound reaction event whose reaction name is not exactly \<open>rocket\<close>, or
  whose item type is not \<open>message\<close>, or whose acting user appears in the authorizations
  with the bot flag set, processing pushes nothing: the trace of pushes and every bus list
  are as before.
\<close>

theorem C4_rejected_events_publish_nothing:
  assumes "ReactionBody.Reaction (Event event) \<noteq> ''rocket''
     \<or> ReactionItem.Type (Item (Event event)) \<noteq> ''message''
     \<or> (\<exists>auth \<in> set (Authorizations event). IsBot auth \<and> UserID auth = User (Event event))"
  shows "redis_calls (processReactionEvent json slackClient redisClient config allowedRepos
                        (Inr event) s) = redis_calls s
     \<and> redis_lists (processReactionEvent json slackClient redisClient config allowedRepos
                        (Inr event) s) = redis_lists s"
proof -
  from assms have "ReactionBody.Reaction (Event event) \<noteq> RocketReaction
     \<or> ReactionItem.Type (Item (Event event)) \<noteq> ''message''
     \<or> reactionFromBot (Authorizations event) (User (Event event))"
    by (simp add: RocketReaction_def reactionFromBot_iff)
  then show ?thesis
    using processReactionEvent_skip [of "Inr event" json slackClient allowedRepos redisClient
        config s]
    by blast
qed

theorem C4_rejected_events_publish_nothing_witness:
  "ReactionBody.Reaction (Event ex_event_capitalised) \<noteq> ''rocket''
   \<and> redis_calls (processReactionEvent go_json (ex_slack ex_payload) redis_up ex_config None
                    (Inr ex_event_capitalised) ex_state) = []
   \<and> ReactionItem.Type (Item (Event ex_event_on_file)) \<noteq> ''message''
   \<and> redis_calls (processReactionEvent go_json (ex_slack ex_payload) redis_up ex_config None
                    (Inr ex_event_on_file) ex_state) = []
   \<and> (\<exists>auth \<in> set (Authorizations ex_event_by_bot).
         IsBot auth \<and> UserID auth = User (Event ex_event_by_bot))
   \<and> redis_calls (processReactionEvent go_json (ex_slack ex_payload) redis_up ex_config None
                    (Inr ex_event_by_bot) ex_state) = []"
proof -
  have a: "ReactionBody.Reaction (Event ex_event_capitalised) \<noteq> ''rocket''"
    by (simp add: ex_event_capitalised_def ex_event_def)
  have b: "ReactionItem.Type (Item (Event ex_event_on_file)) \<noteq> ''message''"
    by (simp add: ex_event_on_file_def ex_event_def)
  have c: "\<exists>auth \<in> set (Authorizations ex_event_by_bot).
         IsBot auth \<and> UserID auth = User (Event ex_event_by_bot)"
    by (simp add: ex_event_by_bot_def ex_event_def)
  have s0: "redis_calls ex_state = []"
    by (simp add: ex_state_def)
  show ?thesis
    using a b c s0
      C4_rejected_events_publish_nothing [of ex_event_capitalised go_json "ex_slack ex_payload"
        redis_up ex_config None ex_state]
      C4_rejected_events_publish_nothing [of ex_event_on_file go_json "ex_slack ex_payload"
        redis_up ex_config None ex_state]
      C4_rejected_events_publish_nothing [of ex_event_by_bot go_json "ex_slack ex_payload"
        redis_up ex_config None ex_state]
    by simp
qed

subsection \<open>C2: a matching completion notice publishes two reactions, any other none\<close>

text \<open>
  Claim C2. For a decoded completion notice, the handler publishes exactly two reaction
  mutations, first the removal of \<open>gear\<close> and then the addition of \<open>rocket\<close>, both with
  the channel and timestamp of the notice's metadata, if and only if the notice's type is
  \<open>vibe-deploy\<close>, its command is \<open>docker compose up -d\<close> and its metadata block is present.
  Publishing is both the push issued and its effect on the bus: the two pushes are issued
  in that order on the reaction list, that list grows by those of the two mutations that
  the bus accepts (by both, in order, when it accepts both), and no other list changes.
  A notice that fails one of the three conditions pushes nothing and changes no list.
\<close>

theorem C2_completion_publishes_two_or_none:
  "(CommandOutput.Type output = ''vibe-deploy'' \<and> Command output = ''docker compose up -d''
      \<and> CommandOutput.Metadata output = Some m
    \<longrightarrow> redis_calls (processCommandOutput redisClient config (Inr output) s)
          = redis_calls s @
              [(RedisReactionList config,
                ReactionPayload \<lparr>Reaction = ''gear'', Channel = CommandMetadata.Channel m,
                   Ts = CommandMetadata.Ts m, Remove = True\<rparr>,
                redisClient (length (redis_calls s)) = None),
               (RedisReactionList config,
                ReactionPayload \<lparr>Reaction = ''rocket'', Channel = CommandMetadata.Channel m,
                   Ts = CommandMetadata.Ts m, Remove = False\<rparr>,
                redisClient (Suc (length (redis_calls s))) = None)]
      \<and> redis_lists (processCommandOutput redisClient config (Inr output) s)
          = (redis_lists s)
              (RedisReactionList config :=
                 redis_lists s (RedisReactionList config)
                 @ (if redisClient (length (redis_calls s)) = None
                    then [ReactionPayload \<lparr>Reaction = ''gear'', Channel = CommandMetadata.Channel m,
                            Ts = CommandMetadata.Ts m, Remove = True\<rparr>]
                    else [])
                 @ (if redisClient (Suc (length (redis_calls s))) = None
                    then [ReactionPayload \<lparr>Reaction = ''rocket'', Channel = CommandMetadata.Channel m,
                            Ts = CommandMetadata.Ts m, Remove = False\<rparr>]
                    else []))
      \<and> (redisClient (length (redis_calls s)) = None
           \<and> redisClient (Suc (length (redis_calls s))) = None
         \<longrightarrow> redis_lists (processCommandOutput redisClient config (Inr output) s)
                 (RedisReactionList config)
               = redis_lists s (RedisReactionList config)
                 @ [ReactionPayload \<lparr>Reaction = ''gear'', Channel = CommandMetadata.Channel m,
                      Ts = CommandMetadata.Ts m, Remove = True\<rparr>,
                    ReactionPayload \<lparr>Reaction = ''rocket'', Channel = CommandMetadata.Channel m,
                      Ts = CommandMetadata.Ts m, Remove = False\<rparr>]))
   \<and> (CommandOutput.Type output \<noteq> ''vibe-deploy'' \<or> Command output \<noteq> ''docker compose up -d''
      \<or> CommandOutput.Metadata output = None
    \<longrightarrow> redis_calls (processCommandOutput redisClient config (Inr output) s) = redis_calls s
      \<and> redis_lists (processCommandOutput redisClient config (Inr output) s) = redis_lists s)
   \<and> (length (redis_calls (processCommandOutput redisClient config (Inr output) s))
         = length (redis_calls s) + 2
      \<longleftrightarrow> CommandOutput.Type output = ''vibe-deploy'' \<and> Command output = ''docker compose up -d''
          \<and> CommandOutput.Metadata output \<noteq> None)"
proof -
  let ?s' = "processCommandOutput redisClient config (Inr output) s"
  let ?n = "length (redis_calls s)"
  let ?match = "CommandOutput.Type output = ''vibe-deploy'' \<and> Command output = ''docker compose up -d''
          \<and> CommandOutput.Metadata output \<noteq> None"
  let ?gear = "\<lambda>m. ReactionPayload \<lparr>Reaction = ''gear'', Channel = CommandMetadata.Channel m,
                   Ts = CommandMetadata.Ts m, Remove = True\<rparr>"
  let ?rocket = "\<lambda>m. ReactionPayload \<lparr>Reaction = ''rocket'', Channel = CommandMetadata.Channel m,
                   Ts = CommandMetadata.Ts m, Remove = False\<rparr>"
  have two: "redis_calls ?s'
          = redis_calls s @
              [(RedisReactionList config, ?gear m, redisClient ?n = None),
               (RedisReactionList config, ?rocket m, redisClient (Suc ?n) = None)]"
    if "CommandOutput.Type output = ''vibe-deploy''" "Command output = ''docker compose up -d''"
      "CommandOutput.Metadata output = Some m" for m
    using processCommandOutput_match_calls [of "output" m redisClient config s] that
    by (simp add: VibeDeployType_def DeploymentCommand_def GearReaction_def RocketReaction_def)
  have at_key: "redis_lists ?s' k
          = redis_lists s k @ delivered k
              [(RedisReactionList config, ?gear m, redisClient ?n = None),
               (RedisReactionList config, ?rocket m, redisClient (Suc ?n) = None)]"
    if "CommandOutput.Type output = ''vibe-deploy''" "Command output = ''docker compose up -d''"
      "CommandOutput.Metadata output = Some m" for m k
    using processCommandOutput_match_lists [of "output" m redisClient config s k] that
    by (simp add: VibeDeployType_def DeploymentCommand_def GearReaction_def RocketReaction_def)
  have lists: "redis_lists ?s'
          = (redis_lists s)
              (RedisReactionList config :=
                 redis_lists s (RedisReactionList config)
                 @ (if redisClient ?n = None then [?gear m] else [])
                 @ (if redisClient (Suc ?n) = None then [?rocket m] else []))"
    if "CommandOutput.Type output = ''vibe-deploy''" "Command output = ''docker compose up -d''"
      "CommandOutput.Metadata output = Some m" for m
  proof (rule ext)
    fix k
    show "redis_lists ?s' k
          = ((redis_lists s)
              (RedisReactionList config :=
                 redis_lists s (RedisReactionList config)
                 @ (if redisClient ?n = None then [?gear m] else [])
                 @ (if redisClient (Suc ?n) = None then [?rocket m] else []))) k"
      using at_key [OF that, of k] by (simp add: delivered_def)
  qed
  have both: "redis_lists ?s' (RedisReactionList config)
               = redis_lists s (RedisReactionList config) @ [?gear m, ?rocket m]"
    if "CommandOutput.Type output = ''vibe-deploy''" "Command output = ''docker compose up -d''"
      "CommandOutput.Metadata output = Some m"
      "redisClient ?n = None" "redisClient (Suc ?n) = None" for m
    using lists [OF that(1-3)] that(4,5) by simp
  have none: "redis_calls ?s' = redis_calls s \<and> redis_lists ?s' = redis_lists s"
    if "\<not> ?match"
    using processCommandOutput_skip [of "output" redisClient config s] that
    by (auto simp add: VibeDeployType_def DeploymentCommand_def)
  have count: "length (redis_calls ?s') = length (redis_calls s) + 2 \<longleftrightarrow> ?match"
  proof (cases ?match)
    case True
    then obtain m' where "CommandOutput.Metadata output = Some m'" by blast
    with True two [of m'] show ?thesis by simp
  next
    case False
    with none show ?thesis by simp
  qed
  show ?thesis
  proof (intro conjI impI)
    assume h: "CommandOutput.Type output = ''vibe-deploy'' \<and> Command output = ''docker compose up -d''
      \<and> CommandOutput.Metadata output = Some m"
    then have h1: "CommandOutput.Type output = ''vibe-deploy''"
      and h2: "Command output = ''docker compose up -d''"
      and h3: "CommandOutput.Metadata output = Some m"
      by simp_all
    show "redis_calls ?s'
          = redis_calls s @
              [(RedisReactionList config, ?gear m, redisClient ?n = None),
               (RedisReactionList config, ?rocket m, redisClient (Suc ?n) = None)]"
      by (rule two [OF h1 h2 h3])
    show "redis_lists ?s'
          = (redis_lists s)
              (RedisReactionList config :=
                 redis_lists s (RedisReactionList config)
                 @ (if redisClient ?n = None then [?gear m] else [])
                 @ (if redisClient (Suc ?n) = None then [?rocket m] else []))"
      by (rule lists [OF h1 h2 h3])
    assume ok: "redisClient ?n = None \<and> redisClient (Suc ?n) = None"
    show "redis_lists ?s' (RedisReactionList config)
               = redis_lists s (RedisReactionList config) @ [?gear m, ?rocket m]"
      using both [OF h1 h2 h3] ok by simp
  next
    assume "CommandOutput.Type output \<noteq> ''vibe-deploy'' \<or> Command output \<noteq> ''docker compose up -d''
      \<or> CommandOutput.Metadata output = None"
    then have "\<not> ?match" by auto
    from none [OF this] show "redis_calls ?s' = redis_calls s" and "redis_lists ?s' = redis_lists s"
      by simp_all
  next
    show "length (redis_calls ?s') = length (redis_calls s) + 2 \<longleftrightarrow> ?match"
      by (rule count)
  qed
qed

theorem C2_completion_publishes_two_or_none_witness:
  "redis_calls (processCommandOutput redis_up ex_config (Inr (ex_output '''')) ex_state)
     = [(''slack_reactions'',
         ReactionPayload \<lparr>Reaction = ''gear'', Channel = ''C1'', Ts = ''100.1'', Remove = True\<rparr>,
         True),
        (''slack_reactions'',
         ReactionPayload \<lparr>Reaction = ''rocket'', Channel = ''C1'', Ts = ''100.1'', Remove = False\<rparr>,
         True)]
   \<and> redis_lists (processCommandOutput redis_up ex_config (Inr (ex_output '''')) ex_state)
         ''slack_reactions''
     = [ReactionPayload \<lparr>Reaction = ''gear'', Channel = ''C1'', Ts = ''100.1'', Remove = True\<rparr>,
        ReactionPayload \<lparr>Reaction = ''rocket'', Channel = ''C1'', Ts = ''100.1'', Remove = False\<rparr>]
   \<and> redis_lists (processCommandOutput redis_up ex_config (Inr (ex_output '''')) ex_state)
         ''poppit-commands'' = []
   \<and> redis_lists (processCommandOutput redis_first_fails ex_config (Inr (ex_output '''')) ex_state)
         ''slack_reactions''
     = [ReactionPayload \<lparr>Reaction = ''rocket'', Channel = ''C1'', Ts = ''100.1'', Remove = False\<rparr>]
   \<and> Command ((ex_output '''')\<lparr>Command := ''git checkout main''\<rparr>) \<noteq> ''docker compose up -d''
   \<and> redis_calls (processCommandOutput redis_up ex_config
         (Inr ((ex_output '''')\<lparr>Command := ''git checkout main''\<rparr>)) ex_state) = []
   \<and> CommandOutput.Type ((ex_output '''')\<lparr>CommandOutput.Type := ''other-type''\<rparr>) \<noteq> ''vibe-deploy''
   \<and> redis_calls (processCommandOutput redis_up ex_config
         (Inr ((ex_output '''')\<lparr>CommandOutput.Type := ''other-type''\<rparr>)) ex_state) = []
   \<and> CommandOutput.Metadata ((ex_output '''')\<lparr>CommandOutput.Metadata := None\<rparr>) = None
   \<and> redis_calls (processCommandOutput redis_up ex_config
         (Inr ((ex_output '''')\<lparr>CommandOutput.Metadata := None\<rparr>)) ex_state) = []
   \<and> redis_lists (processCommandOutput redis_up ex_config
         (Inr ((ex_output '''')\<lparr>CommandOutput.Metadata := None\<rparr>)) ex_state) ''slack_reactions'' = []"
proof -
  let ?m = "\<lparr>CommandMetadata.Channel = ''C1'', CommandMetadata.Ts = ''100.1''\<rparr>"
  have s0: "redis_calls ex_state = []" "redis_lists ex_state k = []" and up: "redis_up n = None"
    for n k
    by (simp_all add: ex_state_def redis_up_def)
  have cfg: "RedisReactionList ex_config = ''slack_reactions''"
    by (simp add: ex_config_def)
  note matching = C2_completion_publishes_two_or_none
    [of "ex_output ''''" ?m _ ex_config ex_state, THEN conjunct1]
  have a: "redis_calls (processCommandOutput redis_up ex_config (Inr (ex_output '''')) ex_state)
     = [(''slack_reactions'',
         ReactionPayload \<lparr>Reaction = ''gear'', Channel = ''C1'', Ts = ''100.1'', Remove = True\<rparr>,
         True),
        (''slack_reactions'',
         ReactionPayload \<lparr>Reaction = ''rocket'', Channel = ''C1'', Ts = ''100.1'', Remove = False\<rparr>,
         True)]"
    using matching [of redis_up]
    by (simp add: ex_output_fields s0 up cfg)
  have a1: "redis_lists (processCommandOutput redis_up ex_config (Inr (ex_output '''')) ex_state)
         ''slack_reactions''
     = [ReactionPayload \<lparr>Reaction = ''gear'', Channel = ''C1'', Ts = ''100.1'', Remove = True\<rparr>,
        ReactionPayload \<lparr>Reaction = ''rocket'', Channel = ''C1'', Ts = ''100.1'', Remove = False\<rparr>]"
    using matching [of redis_up]
    by (simp add: ex_output_fields s0 up cfg)
  have a2: "redis_lists (processCommandOutput redis_up ex_config (Inr (ex_output '''')) ex_state)
         ''poppit-commands'' = []"
    using matching [of redis_up]
    by (simp add: ex_output_fields s0 up cfg)
  have a3: "redis_lists (processCommandOutput redis_first_fails ex_config (Inr (ex_output ''''))
              ex_state) ''slack_reactions''
     = [ReactionPayload \<lparr>Reaction = ''rocket'', Channel = ''C1'', Ts = ''100.1'', Remove = False\<rparr>]"
    using matching [of redis_first_fails]
    by (simp add: ex_output_fields s0 cfg redis_first_fails_def)
  have b: "Command ((ex_output '''')\<lparr>Command := ''git checkout main''\<rparr>) \<noteq> ''docker compose up -d''"
    by simp
  have b': "redis_calls (processCommandOutput redis_up ex_config
         (Inr ((ex_output '''')\<lparr>Command := ''git checkout main''\<rparr>)) ex_state) = []"
    using C2_completion_publishes_two_or_none
      [of "(ex_output '''')\<lparr>Command := ''git checkout main''\<rparr>" ?m redis_up ex_config ex_state,
        THEN conjunct2, THEN conjunct1] b
    by (simp add: s0)
  have c: "CommandOutput.Type ((ex_output '''')\<lparr>CommandOutput.Type := ''other-type''\<rparr>) \<noteq> ''vibe-deploy''"
    by simp
  have c': "redis_calls (processCommandOutput redis_up ex_config
         (Inr ((ex_output '''')\<lparr>CommandOutput.Type := ''other-type''\<rparr>)) ex_state) = []"
    using C2_completion_publishes_two_or_none
      [of "(ex_output '''')\<lparr>CommandOutput.Type := ''other-type''\<rparr>" ?m redis_up ex_config ex_state,
        THEN conjunct2, THEN conjunct1] c
    by (simp add: s0)
  have d: "CommandOutput.Metadata ((ex_output '''')\<lparr>CommandOutput.Metadata := None\<rparr>) = None"
    by simp
  have d': "redis_calls (processCommandOutput redis_up ex_config
         (Inr ((ex_output '''')\<lparr>CommandOutput.Metadata := None\<rparr>)) ex_state) = []
     \<and> redis_lists (processCommandOutput redis_up ex_config
         (Inr ((ex_output '''')\<lparr>CommandOutput.Metadata := None\<rparr>)) ex_state) ''slack_reactions'' = []"
    using C2_completion_publishes_two_or_none
      [of "(ex_output '''')\<lparr>CommandOutput.Metadata := None\<rparr>" ?m redis_up ex_config ex_state,
        THEN conjunct2, THEN conjunct1] d
    by (simp add: s0)
  from a a1 a2 a3 b b' c c' d d' show ?thesis by (intro conjI) simp_all
qed

subsection \<open>C10: the output text of a notice has no influence\<close>



subsection \<open>C6: the allowlist predicate and its use\<close>

text \<open>
  Claim C6. With no set loaded (\<^verbatim>\<open>nil\<close>), \<^verbatim>\<open>isRepoAllowed\<close> permits every repository
  identifier. With a loaded set it permits exactly the keys of the map that are set to
  true, compared as strings; the set that \<^verbatim>\<open>loadAllowedRepos\<close> returns is the one built
  from the \<open>allowed_repos\<close> list of the parsed file, and with it exactly the members of that
  list are permitted. Consequently, when the message resolves to metadata whose repository
  is not permitted by the loaded set, processing the event pushes nothing: no deployment
  command and no gear reaction.
\<close>

theorem C6_allowlist_membership:
  "isRepoAllowed repo None
   \<and> (isRepoAllowed repo (Some m) \<longleftrightarrow> map_of m repo = Some True)
   \<and> (isRepoAllowed repo (Some (insertRepos repos [])) \<longleftrightarrow> repo \<in> set repos)
   \<and> (fst (loadAllowedRepos fs yaml_Unmarshal configPath s0) = Inr (Some m)
      \<longrightarrow> (\<exists>data cfg. ReadFile fs configPath = Inr data \<and> yaml_Unmarshal data = Inr cfg
             \<and> m = insertRepos (AllowedRepos cfg) []))
   \<and> (getMessageMetadata json slackClient (ReactionItem.Channel (Item (Event event)))
         (ReactionItem.Ts (Item (Event event))) = Inr (Some metadata)
      \<and> map_of m (Repository metadata) \<noteq> Some True
      \<longrightarrow> redis_calls (processReactionEvent json slackClient redisClient config (Some m)
                         (Inr event) s) = redis_calls s
        \<and> redis_lists (processReactionEvent json slackClient redisClient config (Some m)
                         (Inr event) s) = redis_lists s)"
proof -
  have nil: "isRepoAllowed repo None"
    by (simp add: isRepoAllowed_def)
  have member: "isRepoAllowed r (Some m) \<longleftrightarrow> map_of m r = Some True" for r
    by (auto simp add: isRepoAllowed_def split: option.splits)
  have loaded: "isRepoAllowed repo (Some (insertRepos repos [])) \<longleftrightarrow> repo \<in> set repos"
    by (rule isRepoAllowed_loaded)
  have load: "fst (loadAllowedRepos fs yaml_Unmarshal configPath s0) = Inr (Some m)
      \<longrightarrow> (\<exists>data cfg. ReadFile fs configPath = Inr data \<and> yaml_Unmarshal data = Inr cfg
             \<and> m = insertRepos (AllowedRepos cfg) [])"
    by (auto simp add: loadAllowedRepos_def Let_def split: if_splits sum.splits)
  have denied: "redis_calls (processReactionEvent json slackClient redisClient config (Some m)
                         (Inr event) s) = redis_calls s
        \<and> redis_lists (processReactionEvent json slackClient redisClient config (Some m)
                         (Inr event) s) = redis_lists s"
    if resolved: "getMessageMetadata json slackClient (ReactionItem.Channel (Item (Event event)))
         (ReactionItem.Ts (Item (Event event))) = Inr (Some metadata)"
      and absent: "map_of m (Repository metadata) \<noteq> Some True"
  proof -
    from absent have "\<not> isRepoAllowed (Repository metadata) (Some m)"
      by (simp add: member)
    with resolved
    have "\<exists>md. getMessageMetadata json slackClient (ReactionItem.Channel (Item (Event event)))
         (ReactionItem.Ts (Item (Event event))) = Inr (Some md)
      \<and> \<not> isRepoAllowed (Repository md) (Some m)"
      by blast
    then show ?thesis
      using processReactionEvent_skip [of "Inr event" json slackClient "Some m" redisClient
          config s]
      by blast
  qed
  from nil member [of repo] loaded load denied show ?thesis
    by blast
qed

theorem C6_allowlist_membership_witness:
  "fst (loadAllowedRepos ex_fs ex_yaml_Unmarshal ''/config/allowed-repos.yml'' ex_state)
     = Inr (Some (insertRepos [''org/other''] []))
   \<and> isRepoAllowed ''org/other'' (Some (insertRepos [''org/other''] []))
   \<and> \<not> isRepoAllowed ''org/Other'' (Some (insertRepos [''org/other''] []))
   \<and> \<not> isRepoAllowed ''org'' (Some (insertRepos [''org/other''] []))
   \<and> getMessageMetadata go_json (ex_slack ex_payload) ''C1'' ''100.1'' = Inr (Some ex_metadata)
   \<and> map_of (insertRepos [''org/other''] []) (Repository ex_metadata) \<noteq> Some True
   \<and> redis_calls (processReactionEvent go_json (ex_slack ex_payload) redis_up ex_config
                     (Some (insertRepos [''org/other''] [])) (Inr ex_event) ex_state) = []"
proof -
  let ?m = "insertRepos [''org/other''] []"
  note loaded = C6_allowlist_membership [THEN conjunct2, THEN conjunct2, THEN conjunct1]
  note denied = C6_allowlist_membership [THEN conjunct2, THEN conjunct2, THEN conjunct2, THEN conjunct2]
  have from_file: "fst (loadAllowedRepos ex_fs ex_yaml_Unmarshal ''/config/allowed-repos.yml'' ex_state)
     = Inr (Some ?m)"
    by (simp add: loadAllowedRepos_def ex_fs_def ex_yaml_Unmarshal_def IsNotExist_def)
  have a: "isRepoAllowed ''org/other'' (Some ?m)"
    using loaded [of "''org/other''" "[''org/other'']"] by simp
  have b: "\<not> isRepoAllowed ''org/Other'' (Some ?m)"
    using loaded [of "''org/Other''" "[''org/other'']"] by simp
  have c: "\<not> isRepoAllowed ''org'' (Some ?m)"
    using loaded [of "''org''" "[''org/other'']"] by simp
  have resolved: "getMessageMetadata go_json (ex_slack ex_payload)
         (ReactionItem.Channel (Item (Event ex_event)))
         (ReactionItem.Ts (Item (Event ex_event))) = Inr (Some ex_metadata)"
    by (simp add: ex_event_fields ex_resolves)
  have absent: "map_of ?m (Repository ex_metadata) \<noteq> Some True"
    by (simp add: map_of_insertRepos ex_metadata_def)
  from resolved absent
  have "redis_calls (processReactionEvent go_json (ex_slack ex_payload) redis_up ex_config
                     (Some ?m) (Inr ex_event) ex_state) = redis_calls ex_state"
    using denied [of go_json "ex_slack ex_payload" ex_event ex_metadata ?m redis_up ex_config
        ex_state]
    by blast
  then have d: "redis_calls (processReactionEvent go_json (ex_slack ex_payload) redis_up ex_config
                     (Some ?m) (Inr ex_event) ex_state) = []"
    by (simp add: ex_state_def)
  from from_file a b c ex_resolves absent d show ?thesis by (intro conjI)
qed

subsection \<open>C8: an empty allowlist file permits nothing\<close>

text \<open>
  Claim C8. When the configuration path is set, the file is there and readable, and it
  parses to an empty \<open>allowed_repos\<close> list, \<^verbatim>\<open>loadAllowedRepos\<close> returns a non-nil empty
  map, and \<^verbatim>\<open>isRepoAllowed\<close> denies every repository with it. When the path is unset or
  the file does not exist it returns \<^verbatim>\<open>nil\<close>, which permits every repository.
\<close>

theorem C8_empty_allowlist_permits_nothing:
  "(configPath \<noteq> '''' \<and> Stat fs configPath \<noteq> StatNotExist
      \<and> ReadFile fs configPath = Inr data \<and> yaml_Unmarshal data = Inr config
      \<and> AllowedRepos config = []
    \<longrightarrow> fst (loadAllowedRepos fs yaml_Unmarshal configPath s) = Inr (Some [])
      \<and> \<not> isRepoAllowed repo (Some []))
   \<and> (configPath = '''' \<or> Stat fs configPath = StatNotExist
    \<longrightarrow> fst (loadAllowedRepos fs yaml_Unmarshal configPath s) = Inr None
      \<and> isRepoAllowed repo None)"
proof (intro conjI impI)
  assume h: "configPath \<noteq> '''' \<and> Stat fs configPath \<noteq> StatNotExist
      \<and> ReadFile fs configPath = Inr data \<and> yaml_Unmarshal data = Inr config
      \<and> AllowedRepos config = []"
  then have "\<not> IsNotExist (Stat fs configPath)"
    by (simp add: IsNotExist_def split: stat_error.splits)
  with h show "fst (loadAllowedRepos fs yaml_Unmarshal configPath s) = Inr (Some [])"
    by (simp add: loadAllowedRepos_def)
  show "\<not> isRepoAllowed repo (Some [])"
    by (simp add: isRepoAllowed_def)
next
  assume "configPath = '''' \<or> Stat fs configPath = StatNotExist"
  then show "fst (loadAllowedRepos fs yaml_Unmarshal configPath s) = Inr None"
    by (auto simp add: loadAllowedRepos_def IsNotExist_def)
  show "isRepoAllowed repo None"
    by (simp add: isRepoAllowed_def)
qed

theorem C8_empty_allowlist_permits_nothing_witness:
  "''/config/empty.yml'' \<noteq> '''' \<and> Stat ex_fs ''/config/empty.yml'' \<noteq> StatNotExist
   \<and> ReadFile ex_fs ''/config/empty.yml'' = Inr ''allowed_repos: []''
   \<and> ex_yaml_Unmarshal ''allowed_repos: []'' = Inr \<lparr>AllowedRepos = []\<rparr>
   \<and> AllowedRepos \<lparr>AllowedRepos = []\<rparr> = []
   \<and> fst (loadAllowedRepos ex_fs ex_yaml_Unmarshal ''/config/empty.yml'' ex_state) = Inr (Some [])
   \<and> \<not> isRepoAllowed ''org/app'' (Some [])
   \<and> Stat ex_fs ''/config/missing.yml'' = StatNotExist
   \<and> fst (loadAllowedRepos ex_fs ex_yaml_Unmarshal ''/config/missing.yml'' ex_state) = Inr None
   \<and> fst (loadAllowedRepos ex_fs ex_yaml_Unmarshal '''' ex_state) = Inr None
   \<and> isRepoAllowed ''org/app'' None"
proof -
  have h: "''/config/empty.yml'' \<noteq> '''' \<and> Stat ex_fs ''/config/empty.yml'' \<noteq> StatNotExist
      \<and> ReadFile ex_fs ''/config/empty.yml'' = Inr ''allowed_repos: []''
      \<and> ex_yaml_Unmarshal ''allowed_repos: []'' = Inr \<lparr>AllowedRepos = []\<rparr>
      \<and> AllowedRepos \<lparr>AllowedRepos = []\<rparr> = []"
    by (simp add: ex_fs_def ex_yaml_Unmarshal_def)
  have a: "fst (loadAllowedRepos ex_fs ex_yaml_Unmarshal ''/config/empty.yml'' ex_state)
             = Inr (Some [])
      \<and> \<not> isRepoAllowed ''org/app'' (Some [])"
    using C8_empty_allowlist_permits_nothing [of "''/config/empty.yml''" ex_fs
        "''allowed_repos: []''" ex_yaml_Unmarshal "\<lparr>AllowedRepos = []\<rparr>" ex_state "''org/app''",
        THEN conjunct1] h
    by (rule mp)
  have missing: "Stat ex_fs ''/config/missing.yml'' = StatNotExist"
    by (simp add: ex_fs_def)
  have b: "fst (loadAllowedRepos ex_fs ex_yaml_Unmarshal ''/config/missing.yml'' ex_state) = Inr None
      \<and> isRepoAllowed ''org/app'' None"
    using C8_empty_allowlist_permits_nothing [of "''/config/missing.yml''" ex_fs
        _ ex_yaml_Unmarshal _ ex_state "''org/app''", THEN conjunct2] missing
    by blast
  have c: "fst (loadAllowedRepos ex_fs ex_yaml_Unmarshal '''' ex_state) = Inr None
      \<and> isRepoAllowed ''org/app'' None"
    using C8_empty_allowlist_permits_nothing [of "''''" ex_fs
        _ ex_yaml_Unmarshal _ ex_state "''org/app''", THEN conjunct2]
    by blast
  from h a missing b c show ?thesis by (simp only: simp_thms)
qed

subsection \<open>C5: the three results of the metadata resolver\<close>

text \<open>
  Claim C5, as stated, fails: the resolver has a third source of hard errors. A fetched
  message whose payload is foreign, here with an object as author, makes
  \<^verbatim>\<open>json.Unmarshal\<close> fail, and \<^verbatim>\<open>getMessageMetadata\<close> returns the error
  \<open>failed to parse PR metadata\<close> although the chat API answered with one message; the caller
  logs it at error level.
\<close>

theorem C5_foreign_metadata_is_hard_error:
  "ex_slack ex_payload_foreign
      \<lparr>ChannelID = ''C1'', Latest = ''100.1'', Inclusive = True, Limit = 1,
       IncludeAllMetadata = True\<rparr> = Inr [ex_message ex_payload_foreign]
   \<and> getMessageMetadata go_json (ex_slack ex_payload_foreign) ''C1'' ''100.1''
       = Inl ''failed to parse PR metadata: json: cannot unmarshal object into Go struct field PRMetadata.author of type string''
   \<and> filter isErrorLine
         (log_output (processReactionEvent go_json (ex_slack ex_payload_foreign) redis_up ex_config
                        None (Inr ex_event) ex_state))
       = [(''[ERROR] Error getting message metadata: %v'',
           [ArgS ''failed to parse PR metadata: json: cannot unmarshal object into Go struct field PRMetadata.author of type string''])]"
proof -
  have a: "ex_slack ex_payload_foreign
      \<lparr>ChannelID = ''C1'', Latest = ''100.1'', Inclusive = True, Limit = 1,
       IncludeAllMetadata = True\<rparr> = Inr [ex_message ex_payload_foreign]"
    by (simp add: ex_slack_def)
  have b: "getMessageMetadata go_json (ex_slack ex_payload_foreign) ''C1'' ''100.1''
       = Inl ''failed to parse PR metadata: json: cannot unmarshal object into Go struct field PRMetadata.author of type string''"
    by (simp add: getMessageMetadata_def ex_slack_def ex_message_def ex_payload_foreign_def
          go_json_def go_Unmarshal_def decode_int_field_def decode_string_field_def)
  have c: "filter isErrorLine
         (log_output (processReactionEvent go_json (ex_slack ex_payload_foreign) redis_up ex_config
                        None (Inr ex_event) ex_state))
       = [(''[ERROR] Error getting message metadata: %v'',
           [ArgS ''failed to parse PR metadata: json: cannot unmarshal object into Go struct field PRMetadata.author of type string''])]"
    using ex_event_fields(6)
    by (simp add: processReactionEvent_def ex_event_fields RocketReaction_def b logError_def
          ex_state_def ERROR_def INFO_def isErrorLine_def logInfo_def)
  from a b c show ?thesis by (intro conjI)
qed

text \<open>
  Claim C5, amended. The resolver returns a hard error exactly for a failure of the chat
  API, for an empty history, and for a first message whose non-empty payload cannot be
  encoded or cannot be decoded into a \<^verbatim>\<open>PRMetadata\<close>. It returns the non-error
  \<open>no metadata\<close> result exactly when the first message's payload is empty, or decodes to
  metadata with an empty repository or an empty branch. On that result the caller pushes
  nothing and writes no error line to the log.
\<close>

theorem C5_resolver_trichotomy:
  "((\<exists>e. getMessageMetadata json slackClient channel timestamp = Inl e) \<longleftrightarrow>
      (\<exists>e. slackClient \<lparr>ChannelID = channel, Latest = timestamp, Inclusive = True, Limit = 1,
                          IncludeAllMetadata = True\<rparr> = Inl e)
    \<or> slackClient \<lparr>ChannelID = channel, Latest = timestamp, Inclusive = True, Limit = 1,
                     IncludeAllMetadata = True\<rparr> = Inr []
    \<or> (\<exists>message rest.
          slackClient \<lparr>ChannelID = channel, Latest = timestamp, Inclusive = True, Limit = 1,
                       IncludeAllMetadata = True\<rparr> = Inr (message # rest)
        \<and> EventPayload (Message.Metadata message) \<noteq> []
        \<and> ((\<exists>e. Marshal json (EventPayload (Message.Metadata message)) = Inl e)
           \<or> (\<exists>bytes e. Marshal json (EventPayload (Message.Metadata message)) = Inr bytes
                 \<and> Unmarshal json bytes = Inl e))))
   \<and> (getMessageMetadata json slackClient channel timestamp = Inr None \<longleftrightarrow>
      (\<exists>message rest.
          slackClient \<lparr>ChannelID = channel, Latest = timestamp, Inclusive = True, Limit = 1,
                       IncludeAllMetadata = True\<rparr> = Inr (message # rest)
        \<and> (EventPayload (Message.Metadata message) = []
           \<or> (\<exists>bytes metadata.
                 Marshal json (EventPayload (Message.Metadata message)) = Inr bytes
               \<and> Unmarshal json bytes = Inr metadata
               \<and> (Repository metadata = '''' \<or> PRMetadata.Branch metadata = '''')))))
   \<and> (ReactionBody.Reaction (Event event) = ''rocket''
      \<and> ReactionItem.Type (Item (Event event)) = ''message''
      \<and> \<not> reactionFromBot (Authorizations event) (User (Event event))
      \<and> getMessageMetadata json slackClient (ReactionItem.Channel (Item (Event event)))
           (ReactionItem.Ts (Item (Event event))) = Inr None
      \<longrightarrow> redis_calls (processReactionEvent json slackClient redisClient config allowedRepos
                         (Inr event) s) = redis_calls s
        \<and> filter isErrorLine
             (log_output (processReactionEvent json slackClient redisClient config allowedRepos
                            (Inr event) s))
           = filter isErrorLine (log_output s))"
proof (intro conjI)
  let ?r = "slackClient \<lparr>ChannelID = channel, Latest = timestamp, Inclusive = True, Limit = 1,
                          IncludeAllMetadata = True\<rparr>"
  show "(\<exists>e. getMessageMetadata json slackClient channel timestamp = Inl e) \<longleftrightarrow>
      (\<exists>e. ?r = Inl e) \<or> ?r = Inr []
    \<or> (\<exists>message rest. ?r = Inr (message # rest)
        \<and> EventPayload (Message.Metadata message) \<noteq> []
        \<and> ((\<exists>e. Marshal json (EventPayload (Message.Metadata message)) = Inl e)
           \<or> (\<exists>bytes e. Marshal json (EventPayload (Message.Metadata message)) = Inr bytes
                 \<and> Unmarshal json bytes = Inl e)))"
    by (simp add: getMessageMetadata_def Let_def split: sum.splits list.splits)
  show "getMessageMetadata json slackClient channel timestamp = Inr None \<longleftrightarrow>
      (\<exists>message rest. ?r = Inr (message # rest)
        \<and> (EventPayload (Message.Metadata message) = []
           \<or> (\<exists>bytes metadata.
                 Marshal json (EventPayload (Message.Metadata message)) = Inr bytes
               \<and> Unmarshal json bytes = Inr metadata
               \<and> (Repository metadata = '''' \<or> PRMetadata.Branch metadata = ''''))))"
    by (simp add: getMessageMetadata_def Let_def split: sum.splits list.splits)
  show "ReactionBody.Reaction (Event event) = ''rocket''
      \<and> ReactionItem.Type (Item (Event event)) = ''message''
      \<and> \<not> reactionFromBot (Authorizations event) (User (Event event))
      \<and> getMessageMetadata json slackClient (ReactionItem.Channel (Item (Event event)))
           (ReactionItem.Ts (Item (Event event))) = Inr None
      \<longrightarrow> redis_calls (processReactionEvent json slackClient redisClient config allowedRepos
                         (Inr event) s) = redis_calls s
        \<and> filter isErrorLine
             (log_output (processReactionEvent json slackClient redisClient config allowedRepos
                            (Inr event) s))
           = filter isErrorLine (log_output s)"
    by (simp add: processReactionEvent_def Let_def RocketReaction_def)
qed

theorem C5_resolver_trichotomy_witness:
  "getMessageMetadata go_json (ex_slack []) ''C1'' ''100.1'' = Inr None
   \<and> getMessageMetadata go_json (ex_slack ex_payload_no_branch) ''C1'' ''100.1'' = Inr None
   \<and> (\<exists>e. getMessageMetadata go_json (ex_slack ex_payload) ''C2'' ''100.1'' = Inl e)
   \<and> ReactionBody.Reaction (Event ex_event) = ''rocket''
   \<and> ReactionItem.Type (Item (Event ex_event)) = ''message''
   \<and> \<not> reactionFromBot (Authorizations ex_event) (User (Event ex_event))
   \<and> redis_calls (processReactionEvent go_json (ex_slack []) redis_up ex_config None
                    (Inr ex_event) ex_state) = []
   \<and> filter isErrorLine
        (log_output (processReactionEvent go_json (ex_slack []) redis_up ex_config None
                       (Inr ex_event) ex_state)) = []"
proof -
  note hard = C5_resolver_trichotomy [THEN conjunct1]
  note empty = C5_resolver_trichotomy [THEN conjunct2, THEN conjunct1]
  note caller = C5_resolver_trichotomy [THEN conjunct2, THEN conjunct2]
  have a: "getMessageMetadata go_json (ex_slack []) ''C1'' ''100.1'' = Inr None"
    using empty [of go_json "ex_slack []" "''C1''" "''100.1''"]
    by (simp add: ex_slack_def ex_message_def)
  have b: "getMessageMetadata go_json (ex_slack ex_payload_no_branch) ''C1'' ''100.1'' = Inr None"
    using empty [of go_json "ex_slack ex_payload_no_branch" "''C1''" "''100.1''"]
    by (simp add: ex_slack_def ex_message_def ex_payload_no_branch_def go_json_def
          go_Unmarshal_def decode_int_field_def decode_string_field_def)
  have c: "\<exists>e. getMessageMetadata go_json (ex_slack ex_payload) ''C2'' ''100.1'' = Inl e"
    using hard [of go_json "ex_slack ex_payload" "''C2''" "''100.1''"]
    by (simp add: ex_slack_def)
  have a': "getMessageMetadata go_json (ex_slack [])
              (ReactionItem.Channel (Item (Event ex_event)))
              (ReactionItem.Ts (Item (Event ex_event))) = Inr None"
    using a by (simp add: ex_event_fields)
  have d: "redis_calls (processReactionEvent go_json (ex_slack []) redis_up ex_config None
                    (Inr ex_event) ex_state) = redis_calls ex_state
        \<and> filter isErrorLine
             (log_output (processReactionEvent go_json (ex_slack []) redis_up ex_config None
                            (Inr ex_event) ex_state))
           = filter isErrorLine (log_output ex_state)"
    using caller [of ex_event go_json "ex_slack []" redis_up ex_config None ex_state]
      ex_event_fields(1) ex_event_fields(2) ex_event_fields(6) a'
    by blast
  then have d': "redis_calls (processReactionEvent go_json (ex_slack []) redis_up ex_config None
                    (Inr ex_event) ex_state) = []
        \<and> filter isErrorLine
             (log_output (processReactionEvent go_json (ex_slack []) redis_up ex_config None
                            (Inr ex_event) ex_state)) = []"
    by (simp add: ex_state_def)
  from a b c ex_event_fields(1) ex_event_fields(2) ex_event_fields(6) d'
  show ?thesis by (simp only: simp_thms)
qed

end
